theory Spec2Isabelle
  imports Complex_Main "HOL-Library.Stream"
begin

section \<open>Configuration constants (main.py, lines 10-35)\<close>

abbreviation (input) SCREEN_WIDTH :: int where "SCREEN_WIDTH \<equiv> 800"
abbreviation (input) SCREEN_HEIGHT :: int where "SCREEN_HEIGHT \<equiv> 600"
abbreviation (input) PLAYER_SPEED :: int where "PLAYER_SPEED \<equiv> 7"
abbreviation (input) ENEMY_SPEED :: int where "ENEMY_SPEED \<equiv> 2"
abbreviation (input) BULLET_SPEED :: int where "BULLET_SPEED \<equiv> 10"
abbreviation (input) ENEMY_DROP_SPEED :: int where "ENEMY_DROP_SPEED \<equiv> 30"
abbreviation (input) MAX_ENEMIES :: int where "MAX_ENEMIES \<equiv> 8"
abbreviation (input) ENEMY_SPAWN_RATE :: int where "ENEMY_SPAWN_RATE \<equiv> 120"
abbreviation (input) ENEMY_HEALTH_INCREASE_RATE :: int where "ENEMY_HEALTH_INCREASE_RATE \<equiv> 3"
abbreviation (input) OBSTACLE_SPAWN_RATE :: int where "OBSTACLE_SPAWN_RATE \<equiv> 90"
abbreviation (input) OBSTACLE_SPEED_MIN :: int where "OBSTACLE_SPEED_MIN \<equiv> 8"
abbreviation (input) OBSTACLE_SPEED_MAX :: int where "OBSTACLE_SPEED_MAX \<equiv> 14"

text \<open>The enemy types and the game states are small integer enumerations in the source.\<close>

datatype enemy_type = ENEMY_BASIC | ENEMY_FAST | ENEMY_TANK

datatype mode = MENU | PLAYING | GAME_OVER

section \<open>Entities\<close>

text \<open>
  The source keeps every entity as a dictionary with a fixed set of keys; each becomes a
  record. Python compares dictionaries by value, and so does HOL compare records, which
  is what \<open>list.remove\<close> relies on below. Numbers that the source computes in floating
  point (enemy and power-up coordinates, speeds, the difficulty multiplier) are exact
  reals here; the integer quantities (lives, score, level, timers, health, bullet and
  obstacle coordinates) are \<open>int\<close>.
\<close>

record enemy =
  e_x :: real
  e_y :: real
  e_x_change :: real
  e_y_change :: int
  e_fall_speed :: real
  e_type :: enemy_type
  e_health :: int
  e_max_health :: int
  e_points :: int

record bullet =
  b_x :: int
  b_y :: int
  b_speed :: int

record obstacle =
  o_x :: int
  o_y :: int
  o_w :: int
  o_h :: int
  o_speed :: int
  o_color :: "int \<times> int \<times> int"

record power_up =
  p_x :: real
  p_y :: real
  p_type :: string
  p_speed :: int

section \<open>Randomness\<close>

text \<open>
  The outcomes of the calls into Python's \<open>random\<close> module are read from tapes that
  are part of the state. One tape entry holds the raw draws that a single call of
  \<open>spawn_enemy\<close> (respectively \<open>spawn_obstacle\<close>) may consume; a third tape holds
  the results of \<open>random.random()\<close>. A raw draw is mapped onto the range of the library
  function, so every tape is a possible run of the generator:
  \<^item> \<open>random.choice(xs)\<close> and \<open>random.choices(xs, weights)[0]\<close> select \<open>xs ! i\<close>, an
    index draw being reduced modulo the length (all weights in the source are positive,
    so every element can be selected);
  \<^item> \<open>random.randint(a, b)\<close> yields an integer in \<open>[a, b]\<close>;
  \<^item> \<open>random.random()\<close> yields a real in \<open>[0, 1)\<close>, and \<open>random.uniform(a, b)\<close> is
    \<open>a + (b - a) * random()\<close>.
\<close>

record enemy_draw =
  d_type :: nat
  d_side :: nat
  d_fall :: real
  d_x :: int
  d_y :: int
  d_dir :: nat

record obstacle_draw =
  d_speed :: int
  d_ox :: int

definition random_choice :: "'a list \<Rightarrow> nat \<Rightarrow> 'a" where
  "random_choice xs i = xs ! (i mod length xs)"

definition randint :: "int \<Rightarrow> int \<Rightarrow> int \<Rightarrow> int" where
  "randint a b d = a + d mod (b - a + 1)"

definition random_random :: "real \<Rightarrow> real" where
  "random_random u = frac u"

definition uniform :: "real \<Rightarrow> real \<Rightarrow> real \<Rightarrow> real" where
  "uniform a b u = a + (b - a) * random_random u"

section \<open>The simulation state\<close>

text \<open>
  The attributes of the single \<open>GameState\<close> instance \<open>game\<close>, the module-level variable
  \<open>game_state\<close>, the local \<open>running\<close> of \<open>main\<close> and the three random tapes form one
  record. Rendering and audio are calls into pygame without influence on this state and
  are left out.
\<close>

record world =
  playerX :: int
  playerY :: int
  playerX_change :: int
  lives :: int
  score_value :: int
  level :: int
  game_over :: bool
  difficulty_multiplier :: real
  enemies :: "enemy list"
  enemy_spawn_timer :: int
  max_enemies_on_screen :: int
  obstacles :: "obstacle list"
  obstacle_spawn_timer :: int
  bullets :: "bullet list"
  shoot_cooldown :: int
  max_bullets :: int
  rapid_fire_timer :: int
  power_ups :: "power_up list"
  game_state :: mode
  running :: bool
  rnd_enemy :: "enemy_draw stream"
  rnd_obstacle :: "obstacle_draw stream"
  rnd_roll :: "real stream"

section \<open>Entity factories (class GameState)\<close>

text \<open>
  \<open>GameState.spawn_enemy\<close>, lines 116-169. The dictionary that the function builds
  (lines 121-169) is \<open>new_enemy\<close>; the guard of lines 118-119 and the \<open>append\<close> are
  \<open>spawn_enemy\<close>. A call that returns at the guard draws nothing from the tape.
\<close>

definition new_enemy :: "world \<Rightarrow> enemy" where
  "new_enemy s =
    (let d = shd (rnd_enemy s);
         enemy_type =
           (if level s \<ge> 5 then random_choice [ENEMY_BASIC, ENEMY_FAST, ENEMY_TANK] (d_type d)
            else if level s \<ge> 3 then random_choice [ENEMY_BASIC, ENEMY_FAST] (d_type d)
            else ENEMY_BASIC);
         (health, base_speed, points) =
           (if enemy_type = ENEMY_BASIC then
              (1 + level s div ENEMY_HEALTH_INCREASE_RATE,
               real_of_int ENEMY_SPEED * difficulty_multiplier s, 10::int)
            else if enemy_type = ENEMY_FAST then
              (1 + level s div ENEMY_HEALTH_INCREASE_RATE,
               real_of_int ENEMY_SPEED * difficulty_multiplier s * 1.8, 20)
            else
              (3 + level s div ENEMY_HEALTH_INCREASE_RATE,
               real_of_int ENEMY_SPEED * difficulty_multiplier s * 0.6, 30));
         spawn_from = random_choice [''top'', ''left'', ''right''] (d_side d);
         fall_speed = uniform 0.4 1.2 (d_fall d) * (1 + 0.1 * real_of_int (level s - 1));
         (x, y, x_change) =
           (if spawn_from = ''top'' then
              (real_of_int (randint 0 (SCREEN_WIDTH - 64) (d_x d)),
               real_of_int (randint (- 140) (- 60) (d_y d)),
               if random_choice [True, False] (d_dir d) then base_speed else - base_speed)
            else if spawn_from = ''left'' then
              (- 64, real_of_int (randint 60 200 (d_y d)), \<bar>base_speed\<bar>)
            else
              (real_of_int SCREEN_WIDTH, real_of_int (randint 60 200 (d_y d)), - \<bar>base_speed\<bar>))
     in \<lparr>e_x = x, e_y = y, e_x_change = x_change, e_y_change = ENEMY_DROP_SPEED,
         e_fall_speed = fall_speed, e_type = enemy_type, e_health = health,
         e_max_health = health, e_points = points\<rparr>)"

definition spawn_enemy :: "world \<Rightarrow> world" where
  "spawn_enemy s =
    (if int (length (enemies s)) \<ge> max_enemies_on_screen s then s
     else s\<lparr>enemies := enemies s @ [new_enemy s], rnd_enemy := stl (rnd_enemy s)\<rparr>)"

text \<open>\<open>GameState.spawn_initial_enemies\<close>, lines 111-114: \<open>for _ in range(4)\<close>.\<close>

definition spawn_initial_enemies :: "world \<Rightarrow> world" where
  "spawn_initial_enemies s = (spawn_enemy ^^ 4) s"

text \<open>\<open>GameState.reset_game\<close>, lines 79-109.\<close>

definition reset_game :: "world \<Rightarrow> world" where
  "reset_game s =
     spawn_initial_enemies
       (s\<lparr>playerX := SCREEN_WIDTH div 2 - 32,
          playerY := SCREEN_HEIGHT - 120,
          playerX_change := 0,
          lives := 3,
          score_value := 0,
          level := 1,
          game_over := False,
          difficulty_multiplier := 1.0,
          enemies := [],
          enemy_spawn_timer := 0,
          max_enemies_on_screen := 6,
          obstacles := [],
          obstacle_spawn_timer := 0,
          bullets := [],
          shoot_cooldown := 0,
          max_bullets := 3,
          rapid_fire_timer := 0,
          power_ups := []\<rparr>)"

text \<open>\<open>GameState.spawn_obstacle\<close>, lines 171-181.\<close>

definition spawn_obstacle :: "world \<Rightarrow> world" where
  "spawn_obstacle s =
     (let d = shd (rnd_obstacle s);
          speed = randint OBSTACLE_SPEED_MIN OBSTACLE_SPEED_MAX (d_speed d) + level s div 2
      in s\<lparr>obstacles := obstacles s @
              [\<lparr>o_x = randint 0 (SCREEN_WIDTH - 24) (d_ox d), o_y = - 24, o_w = 20, o_h = 20,
                o_speed = speed, o_color = (200, 180, 60)\<rparr>],
           rnd_obstacle := stl (rnd_obstacle s)\<rparr>)"

section \<open>Core mechanics\<close>

text \<open>\<open>is_collision\<close>, lines 287-290; the default threshold 27 is passed explicitly.\<close>

definition is_collision :: "real \<Rightarrow> real \<Rightarrow> real \<Rightarrow> real \<Rightarrow> real \<Rightarrow> bool" where
  "is_collision x1 y1 x2 y2 threshold \<longleftrightarrow> sqrt ((x1 - x2)\<^sup>2 + (y1 - y2)\<^sup>2) < threshold"

text \<open>\<open>rect_overlap\<close>, lines 388-390.\<close>

definition rect_overlap :: "int \<Rightarrow> int \<Rightarrow> int \<Rightarrow> int \<Rightarrow> int \<Rightarrow> int \<Rightarrow> int \<Rightarrow> int \<Rightarrow> bool" where
  "rect_overlap ax ay aw ah bx by' bw bh \<longleftrightarrow>
     ax < bx + bw \<and> ax + aw > bx \<and> ay < by' + bh \<and> ay + ah > by'"

text \<open>\<open>update_player\<close>, lines 293-299.\<close>

definition update_player :: "world \<Rightarrow> world" where
  "update_player s =
     (let px = playerX s + playerX_change s
      in if px \<le> 0 then s\<lparr>playerX := 0\<rparr>
         else if px \<ge> SCREEN_WIDTH - 64 then s\<lparr>playerX := SCREEN_WIDTH - 64\<rparr>
         else s\<lparr>playerX := px\<rparr>)"

text \<open>\<open>create_bullet\<close>, lines 302-309.\<close>

definition create_bullet :: "world \<Rightarrow> world" where
  "create_bullet s =
     (let cooldown = (if rapid_fire_timer s > 0 then 5 else 15);
          max_bullets' = (if rapid_fire_timer s > 0 then 5 else max_bullets s)
      in if shoot_cooldown s \<le> 0 \<and> int (length (bullets s)) < max_bullets' then
           s\<lparr>bullets := bullets s @ [\<lparr>b_x = playerX s, b_y = playerY s, b_speed = BULLET_SPEED\<rparr>],
             shoot_cooldown := cooldown\<rparr>
         else s)"

text \<open>
  The update functions iterate over a copy of a list (\<open>for b in game.bullets[:]\<close>),
  change the visited element in place and may call \<open>list.remove\<close> on it, which deletes
  the first element of the list that is equal by value. In the loops below the list
  argument holds the elements not yet visited and the field of the state holds the
  visited part of the list; Python's list is the concatenation of the two, with the
  current element between them. \<open>list.remove\<close> can only hit the current element or an
  equal one visited before, that is, it acts as \<open>remove1\<close> on the visited part extended
  by the current element.
\<close>

text \<open>\<open>update_bullets\<close>, lines 312-321.\<close>

fun bullets_loop :: "bullet list \<Rightarrow> world \<Rightarrow> world" where
  "bullets_loop [] s = s"
| "bullets_loop (bullet # todo) s =
     (let bullet' = bullet\<lparr>b_y := b_y bullet - b_speed bullet\<rparr>
      in if b_y bullet' < 0 then
           bullets_loop todo (s\<lparr>bullets := remove1 bullet' (bullets s @ [bullet'])\<rparr>)
         else bullets_loop todo (s\<lparr>bullets := bullets s @ [bullet']\<rparr>))"

definition update_bullets :: "world \<Rightarrow> world" where
  "update_bullets s =
     (let s1 = (if shoot_cooldown s > 0 then s\<lparr>shoot_cooldown := shoot_cooldown s - 1\<rparr> else s);
          s2 = (if rapid_fire_timer s1 > 0 then s1\<lparr>rapid_fire_timer := rapid_fire_timer s1 - 1\<rparr>
                else s1)
      in bullets_loop (bullets s2) (s2\<lparr>bullets := []\<rparr>))"

text \<open>
  \<open>update_power_ups\<close>, lines 324-335. Every power-up is created with a \<open>speed\<close> key, so
  the default of \<open>power_up.get('speed', 2)\<close> is never used.
\<close>

fun power_ups_loop :: "power_up list \<Rightarrow> world \<Rightarrow> world" where
  "power_ups_loop [] s = s"
| "power_ups_loop (power_up # todo) s =
     (let power_up' = power_up\<lparr>p_y := p_y power_up + real_of_int (p_speed power_up)\<rparr>
      in if p_y power_up' > real_of_int SCREEN_HEIGHT then
           power_ups_loop todo (s\<lparr>power_ups := remove1 power_up' (power_ups s @ [power_up'])\<rparr>)
         else if is_collision (p_x power_up') (p_y power_up')
                   (real_of_int (playerX s)) (real_of_int (playerY s)) 40 then
           power_ups_loop todo
             ((if p_type power_up' = ''rapid_fire'' then s\<lparr>rapid_fire_timer := 300\<rparr> else s)
                \<lparr>power_ups := remove1 power_up' (power_ups s @ [power_up'])\<rparr>)
         else power_ups_loop todo (s\<lparr>power_ups := power_ups s @ [power_up']\<rparr>))"

definition update_power_ups :: "world \<Rightarrow> world" where
  "update_power_ups s = power_ups_loop (power_ups s) (s\<lparr>power_ups := []\<rparr>)"

text \<open>
  \<open>update_enemies\<close>, lines 338-385. The body of the outer loop is split into the
  player-zone check (lines 349-355), the move (lines 356-365) and the bullet collision
  (lines 367-385). Every enemy is created with a \<open>fall_speed\<close> key, so the default of
  \<open>enemy.get('fall_speed', 0.5)\<close> is never used.
\<close>

definition move_enemy :: "enemy \<Rightarrow> enemy" where
  "move_enemy enemy =
     (let e1 = enemy\<lparr>e_x := e_x enemy + e_x_change enemy\<rparr>;
          e2 = (if e_x e1 \<le> 0 then
                  e1\<lparr>e_x_change := \<bar>e_x_change e1\<bar>, e_y := e_y e1 + real_of_int (e_y_change e1)\<rparr>
                else if e_x e1 \<ge> real_of_int (SCREEN_WIDTH - 64) then
                  e1\<lparr>e_x_change := - \<bar>e_x_change e1\<bar>, e_y := e_y e1 + real_of_int (e_y_change e1)\<rparr>
                else e1)
      in e2\<lparr>e_y := e_y e2 + e_fall_speed e2\<rparr>)"

definition level_up :: "world \<Rightarrow> world" where
  "level_up s =
     (let points_needed = 150 + level s * 50
      in if score_value s \<ge> points_needed * level s then
           s\<lparr>level := level s + 1,
             difficulty_multiplier := difficulty_multiplier s + 0.2,
             max_enemies_on_screen := min MAX_ENEMIES (4 + (level s + 1))\<rparr>
         else s)"

definition enemy_hit :: "enemy \<Rightarrow> bullet \<Rightarrow> world \<Rightarrow> world" where
  "enemy_hit enemy bullet s =
     (let s1 = s\<lparr>bullets := remove1 bullet (bullets s)\<rparr>;
          enemy' = enemy\<lparr>e_health := e_health enemy - 1\<rparr>
      in if e_health enemy' \<le> 0 then
           let s2 = s1\<lparr>score_value := score_value s1 + e_points enemy',
                       enemies := remove1 enemy' (enemies s1 @ [enemy'])\<rparr>;
               s3 = (if random_random (shd (rnd_roll s2)) < 0.15 then
                       s2\<lparr>power_ups := power_ups s2 @
                            [\<lparr>p_x = e_x enemy', p_y = e_y enemy', p_type = ''rapid_fire'',
                              p_speed = 2\<rparr>]\<rparr>
                     else s2)
           in level_up (s3\<lparr>rnd_roll := stl (rnd_roll s3)\<rparr>)
         else s1\<lparr>enemies := enemies s1 @ [enemy']\<rparr>)"

definition enemy_body :: "enemy \<Rightarrow> world \<Rightarrow> world" where
  "enemy_body enemy s =
     (if e_y enemy > real_of_int (SCREEN_HEIGHT - 160) then
        let s1 = s\<lparr>lives := lives s - 1, enemies := remove1 enemy (enemies s @ [enemy])\<rparr>
        in if lives s1 \<le> 0 then s1\<lparr>game_over := True, game_state := GAME_OVER\<rparr> else s1
      else
        let enemy' = move_enemy enemy
        in case find (\<lambda>bullet. is_collision (e_x enemy') (e_y enemy')
                        (real_of_int (b_x bullet)) (real_of_int (b_y bullet)) 27) (bullets s) of
             None \<Rightarrow> s\<lparr>enemies := enemies s @ [enemy']\<rparr>
           | Some bullet \<Rightarrow> enemy_hit enemy' bullet s)"

fun enemies_loop :: "enemy list \<Rightarrow> world \<Rightarrow> world" where
  "enemies_loop [] s = s"
| "enemies_loop (enemy # todo) s = enemies_loop todo (enemy_body enemy s)"

definition update_enemies :: "world \<Rightarrow> world" where
  "update_enemies s =
     (let s1 = s\<lparr>enemy_spawn_timer := enemy_spawn_timer s + 1\<rparr>;
          spawn_rate = max 30 (ENEMY_SPAWN_RATE - level s1 * 10);
          s2 = (if enemy_spawn_timer s1 \<ge> spawn_rate then
                  (spawn_enemy s1)\<lparr>enemy_spawn_timer := 0\<rparr>
                else s1)
      in enemies_loop (enemies s2) (s2\<lparr>enemies := []\<rparr>))"

text \<open>\<open>update_obstacles\<close>, lines 393-419.\<close>

definition obstacle_body :: "obstacle \<Rightarrow> world \<Rightarrow> world" where
  "obstacle_body obs s =
     (let obs' = obs\<lparr>o_y := o_y obs + o_speed obs\<rparr>
      in if o_y obs' > SCREEN_HEIGHT then
           s\<lparr>obstacles := remove1 obs' (obstacles s @ [obs'])\<rparr>
         else
           let s1 = (case find (\<lambda>bullet. rect_overlap (b_x bullet) (b_y bullet) 8 16
                                  (o_x obs') (o_y obs') (o_w obs') (o_h obs')) (bullets s) of
                       None \<Rightarrow> s
                     | Some bullet \<Rightarrow> s\<lparr>bullets := remove1 bullet (bullets s)\<rparr>)
           in if rect_overlap (playerX s) (playerY s) 64 64
                   (o_x obs') (o_y obs') (o_w obs') (o_h obs') then
                let s2 = s1\<lparr>lives := lives s1 - 1,
                            obstacles := remove1 obs' (obstacles s1 @ [obs'])\<rparr>
                in if lives s2 \<le> 0 then s2\<lparr>game_over := True, game_state := GAME_OVER\<rparr> else s2
              else s1\<lparr>obstacles := obstacles s1 @ [obs']\<rparr>)"

fun obstacles_loop :: "obstacle list \<Rightarrow> world \<Rightarrow> world" where
  "obstacles_loop [] s = s"
| "obstacles_loop (obs # todo) s = obstacles_loop todo (obstacle_body obs s)"

definition update_obstacles :: "world \<Rightarrow> world" where
  "update_obstacles s =
     (let s1 = s\<lparr>obstacle_spawn_timer := obstacle_spawn_timer s + 1\<rparr>;
          rate = max 30 (OBSTACLE_SPAWN_RATE - level s1 * 5);
          s2 = (if obstacle_spawn_timer s1 \<ge> rate then
                  (spawn_obstacle s1)\<lparr>obstacle_spawn_timer := 0\<rparr>
                else s1)
      in obstacles_loop (obstacles s2) (s2\<lparr>obstacles := []\<rparr>))"

section \<open>Input handling\<close>

text \<open>
  The event queue of one tick, already decoded: the three event kinds the handlers look
  at, and the keys they compare with. \<open>pygame.key.get_pressed()\<close> is read for the four
  movement keys.
\<close>

datatype key = K_SPACE | K_ESCAPE | K_r | K_other

datatype event = QUIT | KEYDOWN key | OTHER_EVENT

record tick_input =
  events :: "event list"
  k_LEFT :: bool
  k_a :: bool
  k_RIGHT :: bool
  k_d :: bool

text \<open>
  \<open>handle_menu_input\<close>, lines 433-445. The first component of the result is the
  returned flag; \<open>return False\<close> leaves the loop with the rest of the queue unread.
\<close>

fun handle_menu_input :: "event list \<Rightarrow> world \<Rightarrow> bool \<times> world" where
  "handle_menu_input [] s = (True, s)"
| "handle_menu_input (QUIT # es) s = (False, s)"
| "handle_menu_input (KEYDOWN k # es) s =
     (if k = K_SPACE then handle_menu_input es ((reset_game s)\<lparr>game_state := PLAYING\<rparr>)
      else if k = K_ESCAPE then (False, s)
      else handle_menu_input es s)"
| "handle_menu_input (OTHER_EVENT # es) s = handle_menu_input es s"

text \<open>\<open>handle_game_input\<close>, lines 448-467: the event loop, then the movement keys.\<close>

fun game_events :: "event list \<Rightarrow> world \<Rightarrow> bool \<times> world" where
  "game_events [] s = (True, s)"
| "game_events (QUIT # es) s = (False, s)"
| "game_events (KEYDOWN k # es) s =
     (if k = K_SPACE then game_events es (create_bullet s)
      else if k = K_ESCAPE then game_events es (s\<lparr>game_state := MENU\<rparr>)
      else game_events es s)"
| "game_events (OTHER_EVENT # es) s = game_events es s"

definition handle_game_input :: "tick_input \<Rightarrow> world \<Rightarrow> bool \<times> world" where
  "handle_game_input inp s =
     (case game_events (events inp) s of
        (False, s') \<Rightarrow> (False, s')
      | (True, s') \<Rightarrow>
          (True,
           if k_LEFT inp \<or> k_a inp then s'\<lparr>playerX_change := - PLAYER_SPEED\<rparr>
           else if k_RIGHT inp \<or> k_d inp then s'\<lparr>playerX_change := PLAYER_SPEED\<rparr>
           else s'\<lparr>playerX_change := 0\<rparr>))"

text \<open>\<open>handle_game_over_input\<close>, lines 470-482.\<close>

fun handle_game_over_input :: "event list \<Rightarrow> world \<Rightarrow> bool \<times> world" where
  "handle_game_over_input [] s = (True, s)"
| "handle_game_over_input (QUIT # es) s = (False, s)"
| "handle_game_over_input (KEYDOWN k # es) s =
     (if k = K_r then handle_game_over_input es ((reset_game s)\<lparr>game_state := PLAYING\<rparr>)
      else if k = K_ESCAPE then (False, s)
      else handle_game_over_input es s)"
| "handle_game_over_input (OTHER_EVENT # es) s = handle_game_over_input es s"

section \<open>Main loop\<close>

text \<open>
  The five subsystem updates of one PLAYING tick in the order of lines 502-506, and one
  iteration of the \<open>while running\<close> loop of \<open>main\<close> (lines 494-523) without the drawing.
\<close>

definition updates :: "world \<Rightarrow> world" where
  "updates s =
     update_obstacles (update_enemies (update_power_ups (update_bullets (update_player s))))"

definition main_iteration :: "tick_input \<Rightarrow> world \<Rightarrow> world" where
  "main_iteration inp s =
     (case game_state s of
        MENU \<Rightarrow>
          (case handle_menu_input (events inp) s of (r, s') \<Rightarrow> s'\<lparr>running := r\<rparr>)
      | PLAYING \<Rightarrow>
          (case handle_game_input inp s of
             (r, s') \<Rightarrow> (if \<not> game_over s' then updates s' else s')\<lparr>running := r\<rparr>)
      | GAME_OVER \<Rightarrow>
          (case handle_game_over_input (events inp) s of (r, s') \<Rightarrow> s'\<lparr>running := r\<rparr>))"

text \<open>
  Start-up (lines 69 and 184, and \<open>running = True\<close> of line 493): \<open>GameState()\<close> only
  calls \<open>reset_game\<close>, which assigns every attribute, so the values of the record that
  \<open>reset_game\<close> is applied to do not matter.
\<close>

definition initial :: "enemy_draw stream \<Rightarrow> obstacle_draw stream \<Rightarrow> real stream \<Rightarrow> world" where
  "initial re ro rr =
     reset_game
       \<lparr>playerX = 0, playerY = 0, playerX_change = 0, lives = 0, score_value = 0, level = 0,
        game_over = False, difficulty_multiplier = 0, enemies = [], enemy_spawn_timer = 0,
        max_enemies_on_screen = 0, obstacles = [], obstacle_spawn_timer = 0, bullets = [],
        shoot_cooldown = 0, max_bullets = 0, rapid_fire_timer = 0, power_ups = [],
        game_state = MENU, running = True, rnd_enemy = re, rnd_obstacle = ro, rnd_roll = rr\<rparr>"

text \<open>A run of the main loop over the inputs of finitely many ticks; it stops on quit.\<close>

fun run :: "tick_input list \<Rightarrow> world \<Rightarrow> world" where
  "run [] s = s"
| "run (inp # inps) s = (if running s then run inps (main_iteration inp s) else s)"

text \<open>The states of a play session: the start state and what the main loop makes of it.\<close>

inductive reachable :: "world \<Rightarrow> bool" where
  reachable_initial: "reachable (initial re ro rr)"
| reachable_step: "reachable s \<Longrightarrow> running s \<Longrightarrow> reachable (main_iteration inp s)"

section \<open>Invariants and scenarios\<close>

text \<open>
  The relation between the lives counter, the game-over flag and the mode, and the facts
  about the shooting state that hold between ticks.
\<close>

definition over_inv :: "world \<Rightarrow> bool" where
  "over_inv s \<longleftrightarrow> (game_state s = GAME_OVER) = (lives s \<le> 0) \<and> game_over s = (lives s \<le> 0)"

definition tick_inv :: "world \<Rightarrow> bool" where
  "tick_inv s \<longleftrightarrow>
     over_inv s \<and> 0 \<le> shoot_cooldown s \<and> max_bullets s = 3 \<and> length (bullets s) \<le> 5"

text \<open>Tick inputs: nothing pressed, and a single key press.\<close>

definition idle :: tick_input where
  "idle = \<lparr>events = [], k_LEFT = False, k_a = False, k_RIGHT = False, k_d = False\<rparr>"

definition press :: "key \<Rightarrow> tick_input" where
  "press k = \<lparr>events = [KEYDOWN k], k_LEFT = False, k_a = False, k_RIGHT = False, k_d = False\<rparr>"

text \<open>
  A session in which every enemy enters from the left edge at height 200 with fall speed
  1: \<open>random.choices\<close> selects \<open>"left"\<close>, \<open>random.randint(60, 200)\<close> yields 200 and
  \<open>random.uniform(0.4, 1.2)\<close> yields 1. The player starts the game and then does
  nothing for eight ticks, after which the four initial enemies stand at height 448;
  the ninth tick ends the game.
\<close>

definition left_draw :: enemy_draw where
  "left_draw = \<lparr>d_type = 0, d_side = 1, d_fall = 3/4, d_x = 0, d_y = 140, d_dir = 0\<rparr>"

definition no_obstacle_draw :: obstacle_draw where
  "no_obstacle_draw = \<lparr>d_speed = 0, d_ox = 0\<rparr>"

definition w0 :: world where
  "w0 = initial (sconst left_draw) (sconst no_obstacle_draw) (sconst 0)"

definition doomed :: world where
  "doomed = run (press K_SPACE # replicate 8 idle) w0"

definition doomed_state :: world where
  "doomed_state =
     \<lparr>playerX = 368, playerY = 480, playerX_change = 0, lives = 3,
        score_value = 0, level = 1, game_over = False,
        difficulty_multiplier = 1,
        enemies = replicate 4
          \<lparr>e_x = - 48, e_y = 448, e_x_change = 2, e_y_change = 30,
              e_fall_speed = 1, e_type = ENEMY_BASIC, e_health = 1,
              e_max_health = 1, e_points = 10\<rparr>,
        enemy_spawn_timer = 8, max_enemies_on_screen = 6, obstacles = [],
        obstacle_spawn_timer = 8, bullets = [], shoot_cooldown = 0,
        max_bullets = 3, rapid_fire_timer = 0, power_ups = [],
        game_state = PLAYING, running = True,
        rnd_enemy = sconst left_draw,
        rnd_obstacle = sconst no_obstacle_draw, rnd_roll = sconst 0\<rparr>"

definition over_state :: world where
  "over_state =
     \<lparr>playerX = 368, playerY = 480, playerX_change = 0, lives = - 1,
        score_value = 0, level = 1, game_over = True,
        difficulty_multiplier = 1, enemies = [], enemy_spawn_timer = 9,
        max_enemies_on_screen = 6, obstacles = [], obstacle_spawn_timer = 9,
        bullets = [], shoot_cooldown = 0, max_bullets = 3,
        rapid_fire_timer = 0, power_ups = [], game_state = GAME_OVER,
        running = True, rnd_enemy = sconst left_draw,
        rnd_obstacle = sconst no_obstacle_draw, rnd_roll = sconst 0\<rparr>"

text \<open>
  The relation between the level and the cap on the number of enemies: 6 on level 1 (set
  by \<open>reset_game\<close>) and \<open>min(MAX_ENEMIES, 4 + level)\<close> after a level-up.
\<close>

definition cap_inv :: "world \<Rightarrow> bool" where
  "cap_inv s \<longleftrightarrow>
     1 \<le> level s \<and>
     max_enemies_on_screen s = (if level s = 1 then 6 else min MAX_ENEMIES (4 + level s))"

text \<open>
  Notions for the obstacle update: the obstacle after its move of one tick, the two tests
  that remove it (lines 404 and 413), and the list that the loop of \<open>update_obstacles\<close>
  runs over, which includes the obstacle spawned in the same call.
\<close>

definition fallen :: "obstacle \<Rightarrow> obstacle" where
  "fallen ob = ob\<lparr>o_y := o_y ob + o_speed ob\<rparr>"

definition off_bottom :: "obstacle \<Rightarrow> bool" where
  "off_bottom ob \<longleftrightarrow> o_y ob > SCREEN_HEIGHT"

definition hits_player :: "world \<Rightarrow> obstacle \<Rightarrow> bool" where
  "hits_player s ob \<longleftrightarrow>
     rect_overlap (playerX s) (playerY s) 64 64 (o_x ob) (o_y ob) (o_w ob) (o_h ob)"

definition obstacles_in_play :: "world \<Rightarrow> obstacle list" where
  "obstacles_in_play s =
     (if obstacle_spawn_timer s + 1 \<ge> max 30 (OBSTACLE_SPAWN_RATE - level s * 5)
      then obstacles (spawn_obstacle s) else obstacles s)"

text \<open>
  A session with a rapid-fire pickup. The first enemy of the game that the player starts
  appears at the top at x = 272 with fall speed 1.1, all other enemies at the top left
  with fall speed 0.4; the first obstacle falls at x = 368, on the player, all later ones
  at x = 776. The first kill drops a power-up (the first value of \<open>random.random()\<close> is
  0). The player starts the game, shoots in the first tick, shoots again in tick 86 and
  five times in the ticks 552 to 572, and never moves (ticks counted from the first
  tick of play; the tick before it is the one in the menu that starts the game). The
  states below are the states of this session after the ticks 111, 112, 144, 145, 265,
  420, 571 and 572.
\<close>

definition harmless_draw :: enemy_draw where
  "harmless_draw = \<lparr>d_type = 0, d_side = 0, d_fall = 0, d_x = 0, d_y = 0, d_dir = 0\<rparr>"

definition target_draw :: enemy_draw where
  "target_draw = \<lparr>d_type = 0, d_side = 0, d_fall = 7/8, d_x = 272, d_y = 80, d_dir = 0\<rparr>"

definition near_obstacle_draw :: obstacle_draw where
  "near_obstacle_draw = \<lparr>d_speed = 0, d_ox = 368\<rparr>"

definition far_obstacle_draw :: obstacle_draw where
  "far_obstacle_draw = \<lparr>d_speed = 0, d_ox = 776\<rparr>"

definition rapid_start :: world where
  "rapid_start =
     initial ([harmless_draw, harmless_draw, harmless_draw, harmless_draw, target_draw]
                @- sconst harmless_draw)
       ([near_obstacle_draw] @- sconst far_obstacle_draw) (sconst 0)"

definition rapid_inputs_1 :: "tick_input list" where
  "rapid_inputs_1 =
     press K_SPACE # press K_SPACE # replicate 84 idle @ press K_SPACE # replicate 25 idle"

definition rapid_inputs_4 :: "tick_input list" where
  "rapid_inputs_4 =
     replicate 131 idle @ concat (replicate 4 (press K_SPACE # replicate 4 idle))"

definition rapid_inputs :: "tick_input list" where
  "rapid_inputs =
     rapid_inputs_1 @ idle # replicate 32 idle @ idle # replicate 120 idle @
     replicate 155 idle @ rapid_inputs_4 @ [press K_SPACE]"

definition absorb_pre :: world where
  "absorb_pre =
     \<lparr>playerX = 368, playerY = 480, playerX_change = 0, lives = 3, score_value = 10,
        level = 1, game_over = False, difficulty_multiplier = 1,
        enemies =
          [\<lparr>e_x = 222, e_y = - (478 / 5), e_x_change = 2, e_y_change = 30,
             e_fall_speed = 2 / 5, e_type = ENEMY_BASIC, e_health = 1, e_max_health = 1,
             e_points = 10\<rparr>,
           \<lparr>e_x = 222, e_y = - (478 / 5), e_x_change = 2, e_y_change = 30,
             e_fall_speed = 2 / 5, e_type = ENEMY_BASIC, e_health = 1, e_max_health = 1,
             e_points = 10\<rparr>,
           \<lparr>e_x = 222, e_y = - (478 / 5), e_x_change = 2, e_y_change = 30,
             e_fall_speed = 2 / 5, e_type = ENEMY_BASIC, e_health = 1, e_max_health = 1,
             e_points = 10\<rparr>,
           \<lparr>e_x = 4, e_y = - (696 / 5), e_x_change = 2, e_y_change = 30,
             e_fall_speed = 2 / 5, e_type = ENEMY_BASIC, e_health = 1, e_max_health = 1,
             e_points = 10\<rparr>],
        enemy_spawn_timer = 1, max_enemies_on_screen = 6,
        obstacles = [\<lparr>o_x = 368, o_y = 192, o_w = 20, o_h = 20, o_speed = 8,
             o_color = (200, 180, 60)\<rparr>],
        obstacle_spawn_timer = 26,
        bullets = [\<lparr>b_x = 368, b_y = 220, b_speed = 10\<rparr>],
        shoot_cooldown = 0, max_bullets = 3, rapid_fire_timer = 0,
        power_ups = [\<lparr>p_x = 366, p_y = 1197 / 10, p_type = ''rapid_fire'', p_speed = 2\<rparr>],
        game_state = PLAYING, running = True,
        rnd_enemy = sconst harmless_draw, rnd_obstacle = sconst far_obstacle_draw,
        rnd_roll = sconst 0\<rparr>"

definition absorb_post :: world where
  "absorb_post =
     \<lparr>playerX = 368, playerY = 480, playerX_change = 0, lives = 3, score_value = 10,
        level = 1, game_over = False, difficulty_multiplier = 1,
        enemies =
          [\<lparr>e_x = 224, e_y = - (476 / 5), e_x_change = 2, e_y_change = 30,
             e_fall_speed = 2 / 5, e_type = ENEMY_BASIC, e_health = 1, e_max_health = 1,
             e_points = 10\<rparr>,
           \<lparr>e_x = 224, e_y = - (476 / 5), e_x_change = 2, e_y_change = 30,
             e_fall_speed = 2 / 5, e_type = ENEMY_BASIC, e_health = 1, e_max_health = 1,
             e_points = 10\<rparr>,
           \<lparr>e_x = 224, e_y = - (476 / 5), e_x_change = 2, e_y_change = 30,
             e_fall_speed = 2 / 5, e_type = ENEMY_BASIC, e_health = 1, e_max_health = 1,
             e_points = 10\<rparr>,
           \<lparr>e_x = 6, e_y = - (694 / 5), e_x_change = 2, e_y_change = 30,
             e_fall_speed = 2 / 5, e_type = ENEMY_BASIC, e_health = 1, e_max_health = 1,
             e_points = 10\<rparr>],
        enemy_spawn_timer = 2, max_enemies_on_screen = 6,
        obstacles = [\<lparr>o_x = 368, o_y = 200, o_w = 20, o_h = 20, o_speed = 8,
             o_color = (200, 180, 60)\<rparr>],
        obstacle_spawn_timer = 27,
        bullets = [],
        shoot_cooldown = 0, max_bullets = 3, rapid_fire_timer = 0,
        power_ups = [\<lparr>p_x = 366, p_y = 1217 / 10, p_type = ''rapid_fire'', p_speed = 2\<rparr>],
        game_state = PLAYING, running = True,
        rnd_enemy = sconst harmless_draw, rnd_obstacle = sconst far_obstacle_draw,
        rnd_roll = sconst 0\<rparr>"

definition hit_pre :: world where
  "hit_pre =
     \<lparr>playerX = 368, playerY = 480, playerX_change = 0, lives = 3, score_value = 10,
        level = 1, game_over = False, difficulty_multiplier = 1,
        enemies =
          [\<lparr>e_x = 288, e_y = - (412 / 5), e_x_change = 2, e_y_change = 30,
             e_fall_speed = 2 / 5, e_type = ENEMY_BASIC, e_health = 1, e_max_health = 1,
             e_points = 10\<rparr>,
           \<lparr>e_x = 288, e_y = - (412 / 5), e_x_change = 2, e_y_change = 30,
             e_fall_speed = 2 / 5, e_type = ENEMY_BASIC, e_health = 1, e_max_health = 1,
             e_points = 10\<rparr>,
           \<lparr>e_x = 288, e_y = - (412 / 5), e_x_change = 2, e_y_change = 30,
             e_fall_speed = 2 / 5, e_type = ENEMY_BASIC, e_health = 1, e_max_health = 1,
             e_points = 10\<rparr>,
           \<lparr>e_x = 70, e_y = - 126, e_x_change = 2, e_y_change = 30,
             e_fall_speed = 2 / 5, e_type = ENEMY_BASIC, e_health = 1, e_max_health = 1,
             e_points = 10\<rparr>],
        enemy_spawn_timer = 34, max_enemies_on_screen = 6,
        obstacles = [\<lparr>o_x = 368, o_y = 456, o_w = 20, o_h = 20, o_speed = 8,
             o_color = (200, 180, 60)\<rparr>],
        obstacle_spawn_timer = 59,
        bullets = [],
        shoot_cooldown = 0, max_bullets = 3, rapid_fire_timer = 0,
        power_ups = [\<lparr>p_x = 366, p_y = 1857 / 10, p_type = ''rapid_fire'', p_speed = 2\<rparr>],
        game_state = PLAYING, running = True,
        rnd_enemy = sconst harmless_draw, rnd_obstacle = sconst far_obstacle_draw,
        rnd_roll = sconst 0\<rparr>"

definition hit_post :: world where
  "hit_post =
     \<lparr>playerX = 368, playerY = 480, playerX_change = 0, lives = 2, score_value = 10,
        level = 1, game_over = False, difficulty_multiplier = 1,
        enemies =
          [\<lparr>e_x = 290, e_y = - 82, e_x_change = 2, e_y_change = 30,
             e_fall_speed = 2 / 5, e_type = ENEMY_BASIC, e_health = 1, e_max_health = 1,
             e_points = 10\<rparr>,
           \<lparr>e_x = 290, e_y = - 82, e_x_change = 2, e_y_change = 30,
             e_fall_speed = 2 / 5, e_type = ENEMY_BASIC, e_health = 1, e_max_health = 1,
             e_points = 10\<rparr>,
           \<lparr>e_x = 290, e_y = - 82, e_x_change = 2, e_y_change = 30,
             e_fall_speed = 2 / 5, e_type = ENEMY_BASIC, e_health = 1, e_max_health = 1,
             e_points = 10\<rparr>,
           \<lparr>e_x = 72, e_y = - (628 / 5), e_x_change = 2, e_y_change = 30,
             e_fall_speed = 2 / 5, e_type = ENEMY_BASIC, e_health = 1, e_max_health = 1,
             e_points = 10\<rparr>],
        enemy_spawn_timer = 35, max_enemies_on_screen = 6,
        obstacles = [],
        obstacle_spawn_timer = 60,
        bullets = [],
        shoot_cooldown = 0, max_bullets = 3, rapid_fire_timer = 0,
        power_ups = [\<lparr>p_x = 366, p_y = 1877 / 10, p_type = ''rapid_fire'', p_speed = 2\<rparr>],
        game_state = PLAYING, running = True,
        rnd_enemy = sconst harmless_draw, rnd_obstacle = sconst far_obstacle_draw,
        rnd_roll = sconst 0\<rparr>"

definition rapid_265 :: world where
  "rapid_265 =
     \<lparr>playerX = 368, playerY = 480, playerX_change = 0, lives = 2, score_value = 10,
        level = 1, game_over = False, difficulty_multiplier = 1,
        enemies =
          [\<lparr>e_x = 530, e_y = - 34, e_x_change = 2, e_y_change = 30,
             e_fall_speed = 2 / 5, e_type = ENEMY_BASIC, e_health = 1, e_max_health = 1,
             e_points = 10\<rparr>,
           \<lparr>e_x = 530, e_y = - 34, e_x_change = 2, e_y_change = 30,
             e_fall_speed = 2 / 5, e_type = ENEMY_BASIC, e_health = 1, e_max_health = 1,
             e_points = 10\<rparr>,
           \<lparr>e_x = 530, e_y = - 34, e_x_change = 2, e_y_change = 30,
             e_fall_speed = 2 / 5, e_type = ENEMY_BASIC, e_health = 1, e_max_health = 1,
             e_points = 10\<rparr>,
           \<lparr>e_x = 312, e_y = - (388 / 5), e_x_change = 2, e_y_change = 30,
             e_fall_speed = 2 / 5, e_type = ENEMY_BASIC, e_health = 1, e_max_health = 1,
             e_points = 10\<rparr>,
           \<lparr>e_x = 92, e_y = - (608 / 5), e_x_change = 2, e_y_change = 30,
             e_fall_speed = 2 / 5, e_type = ENEMY_BASIC, e_health = 1, e_max_health = 1,
             e_points = 10\<rparr>],
        enemy_spawn_timer = 45, max_enemies_on_screen = 6,
        obstacles = [\<lparr>o_x = 776, o_y = 64, o_w = 20, o_h = 20, o_speed = 8,
             o_color = (200, 180, 60)\<rparr>],
        obstacle_spawn_timer = 10,
        bullets = [],
        shoot_cooldown = 0, max_bullets = 3, rapid_fire_timer = 0,
        power_ups = [\<lparr>p_x = 366, p_y = 4277 / 10, p_type = ''rapid_fire'', p_speed = 2\<rparr>],
        game_state = PLAYING, running = True,
        rnd_enemy = sconst harmless_draw, rnd_obstacle = sconst far_obstacle_draw,
        rnd_roll = sconst 0\<rparr>"

definition rapid_420 :: world where
  "rapid_420 =
     \<lparr>playerX = 368, playerY = 480, playerX_change = 0, lives = 2, score_value = 10,
        level = 1, game_over = False, difficulty_multiplier = 1,
        enemies =
          [\<lparr>e_x = 632, e_y = 58, e_x_change = - 2, e_y_change = 30,
             e_fall_speed = 2 / 5, e_type = ENEMY_BASIC, e_health = 1, e_max_health = 1,
             e_points = 10\<rparr>,
           \<lparr>e_x = 632, e_y = 58, e_x_change = - 2, e_y_change = 30,
             e_fall_speed = 2 / 5, e_type = ENEMY_BASIC, e_health = 1, e_max_health = 1,
             e_points = 10\<rparr>,
           \<lparr>e_x = 632, e_y = 58, e_x_change = - 2, e_y_change = 30,
             e_fall_speed = 2 / 5, e_type = ENEMY_BASIC, e_health = 1, e_max_health = 1,
             e_points = 10\<rparr>,
           \<lparr>e_x = 622, e_y = - (78 / 5), e_x_change = 2, e_y_change = 30,
             e_fall_speed = 2 / 5, e_type = ENEMY_BASIC, e_health = 1, e_max_health = 1,
             e_points = 10\<rparr>,
           \<lparr>e_x = 402, e_y = - (298 / 5), e_x_change = 2, e_y_change = 30,
             e_fall_speed = 2 / 5, e_type = ENEMY_BASIC, e_health = 1, e_max_health = 1,
             e_points = 10\<rparr>,
           \<lparr>e_x = 182, e_y = - (518 / 5), e_x_change = 2, e_y_change = 30,
             e_fall_speed = 2 / 5, e_type = ENEMY_BASIC, e_health = 1, e_max_health = 1,
             e_points = 10\<rparr>],
        enemy_spawn_timer = 90, max_enemies_on_screen = 6,
        obstacles = [],
        obstacle_spawn_timer = 80,
        bullets = [],
        shoot_cooldown = 0, max_bullets = 3, rapid_fire_timer = 152,
        power_ups = [],
        game_state = PLAYING, running = True,
        rnd_enemy = sconst harmless_draw, rnd_obstacle = sconst far_obstacle_draw,
        rnd_roll = sconst 0\<rparr>"

definition expiry_pre :: world where
  "expiry_pre =
     \<lparr>playerX = 368, playerY = 480, playerX_change = 0, lives = 2, score_value = 10,
        level = 1, game_over = False, difficulty_multiplier = 1,
        enemies =
          [\<lparr>e_x = 330, e_y = 592 / 5, e_x_change = - 2, e_y_change = 30,
             e_fall_speed = 2 / 5, e_type = ENEMY_BASIC, e_health = 1, e_max_health = 1,
             e_points = 10\<rparr>,
           \<lparr>e_x = 330, e_y = 592 / 5, e_x_change = - 2, e_y_change = 30,
             e_fall_speed = 2 / 5, e_type = ENEMY_BASIC, e_health = 1, e_max_health = 1,
             e_points = 10\<rparr>,
           \<lparr>e_x = 330, e_y = 592 / 5, e_x_change = - 2, e_y_change = 30,
             e_fall_speed = 2 / 5, e_type = ENEMY_BASIC, e_health = 1, e_max_health = 1,
             e_points = 10\<rparr>,
           \<lparr>e_x = 548, e_y = 374 / 5, e_x_change = - 2, e_y_change = 30,
             e_fall_speed = 2 / 5, e_type = ENEMY_BASIC, e_health = 1, e_max_health = 1,
             e_points = 10\<rparr>,
           \<lparr>e_x = 704, e_y = 4 / 5, e_x_change = 2, e_y_change = 30,
             e_fall_speed = 2 / 5, e_type = ENEMY_BASIC, e_health = 1, e_max_health = 1,
             e_points = 10\<rparr>,
           \<lparr>e_x = 484, e_y = - (216 / 5), e_x_change = 2, e_y_change = 30,
             e_fall_speed = 2 / 5, e_type = ENEMY_BASIC, e_health = 1, e_max_health = 1,
             e_points = 10\<rparr>],
        enemy_spawn_timer = 21, max_enemies_on_screen = 6,
        obstacles = [\<lparr>o_x = 776, o_y = 472, o_w = 20, o_h = 20, o_speed = 8,
             o_color = (200, 180, 60)\<rparr>],
        obstacle_spawn_timer = 61,
        bullets = [\<lparr>b_x = 368, b_y = 280, b_speed = 10\<rparr>,
           \<lparr>b_x = 368, b_y = 330, b_speed = 10\<rparr>,
           \<lparr>b_x = 368, b_y = 380, b_speed = 10\<rparr>,
           \<lparr>b_x = 368, b_y = 430, b_speed = 10\<rparr>],
        shoot_cooldown = 0, max_bullets = 3, rapid_fire_timer = 1,
        power_ups = [],
        game_state = PLAYING, running = True,
        rnd_enemy = sconst harmless_draw, rnd_obstacle = sconst far_obstacle_draw,
        rnd_roll = sconst 0\<rparr>"

definition expiry_post :: world where
  "expiry_post =
     \<lparr>playerX = 368, playerY = 480, playerX_change = 0, lives = 2, score_value = 10,
        level = 1, game_over = False, difficulty_multiplier = 1,
        enemies =
          [\<lparr>e_x = 328, e_y = 594 / 5, e_x_change = - 2, e_y_change = 30,
             e_fall_speed = 2 / 5, e_type = ENEMY_BASIC, e_health = 1, e_max_health = 1,
             e_points = 10\<rparr>,
           \<lparr>e_x = 328, e_y = 594 / 5, e_x_change = - 2, e_y_change = 30,
             e_fall_speed = 2 / 5, e_type = ENEMY_BASIC, e_health = 1, e_max_health = 1,
             e_points = 10\<rparr>,
           \<lparr>e_x = 328, e_y = 594 / 5, e_x_change = - 2, e_y_change = 30,
             e_fall_speed = 2 / 5, e_type = ENEMY_BASIC, e_health = 1, e_max_health = 1,
             e_points = 10\<rparr>,
           \<lparr>e_x = 546, e_y = 376 / 5, e_x_change = - 2, e_y_change = 30,
             e_fall_speed = 2 / 5, e_type = ENEMY_BASIC, e_health = 1, e_max_health = 1,
             e_points = 10\<rparr>,
           \<lparr>e_x = 706, e_y = 6 / 5, e_x_change = 2, e_y_change = 30,
             e_fall_speed = 2 / 5, e_type = ENEMY_BASIC, e_health = 1, e_max_health = 1,
             e_points = 10\<rparr>,
           \<lparr>e_x = 486, e_y = - (214 / 5), e_x_change = 2, e_y_change = 30,
             e_fall_speed = 2 / 5, e_type = ENEMY_BASIC, e_health = 1, e_max_health = 1,
             e_points = 10\<rparr>],
        enemy_spawn_timer = 22, max_enemies_on_screen = 6,
        obstacles = [\<lparr>o_x = 776, o_y = 480, o_w = 20, o_h = 20, o_speed = 8,
             o_color = (200, 180, 60)\<rparr>],
        obstacle_spawn_timer = 62,
        bullets = [\<lparr>b_x = 368, b_y = 270, b_speed = 10\<rparr>,
           \<lparr>b_x = 368, b_y = 320, b_speed = 10\<rparr>,
           \<lparr>b_x = 368, b_y = 370, b_speed = 10\<rparr>,
           \<lparr>b_x = 368, b_y = 420, b_speed = 10\<rparr>,
           \<lparr>b_x = 368, b_y = 470, b_speed = 10\<rparr>],
        shoot_cooldown = 4, max_bullets = 3, rapid_fire_timer = 0,
        power_ups = [],
        game_state = PLAYING, running = True,
        rnd_enemy = sconst harmless_draw, rnd_obstacle = sconst far_obstacle_draw,
        rnd_roll = sconst 0\<rparr>"




section \<open>Frame properties of the factories and update functions\<close>

text \<open>Which fields each function leaves alone, and how the bullet list can grow.\<close>

lemma spawn_enemy_frame [simp]:
  "lives (spawn_enemy s) = lives s" "game_over (spawn_enemy s) = game_over s"
  "game_state (spawn_enemy s) = game_state s" "score_value (spawn_enemy s) = score_value s"
  "level (spawn_enemy s) = level s" "bullets (spawn_enemy s) = bullets s"
  "max_bullets (spawn_enemy s) = max_bullets s" "shoot_cooldown (spawn_enemy s) = shoot_cooldown s"
  "rapid_fire_timer (spawn_enemy s) = rapid_fire_timer s"
  "max_enemies_on_screen (spawn_enemy s) = max_enemies_on_screen s"
  "running (spawn_enemy s) = running s" "obstacles (spawn_enemy s) = obstacles s"
  "power_ups (spawn_enemy s) = power_ups s" "playerX (spawn_enemy s) = playerX s"
  "playerY (spawn_enemy s) = playerY s"
  by (simp_all add: spawn_enemy_def)

lemma spawn_enemy_length:
  "length (enemies (spawn_enemy s)) =
     (if int (length (enemies s)) \<ge> max_enemies_on_screen s then length (enemies s)
      else Suc (length (enemies s)))"
  by (simp add: spawn_enemy_def)

lemma reset_game_fields:
  "lives (reset_game s) = 3" "score_value (reset_game s) = 0" "level (reset_game s) = 1"
  "game_over (reset_game s) = False" "game_state (reset_game s) = game_state s"
  "length (enemies (reset_game s)) = 4" "bullets (reset_game s) = []"
  "max_bullets (reset_game s) = 3" "shoot_cooldown (reset_game s) = 0"
  "rapid_fire_timer (reset_game s) = 0" "max_enemies_on_screen (reset_game s) = 6"
  "running (reset_game s) = running s"
  by (simp_all add: reset_game_def spawn_initial_enemies_def numeral_eq_Suc spawn_enemy_length)

lemma spawn_obstacle_frame [simp]:
  "lives (spawn_obstacle s) = lives s" "game_over (spawn_obstacle s) = game_over s"
  "game_state (spawn_obstacle s) = game_state s" "bullets (spawn_obstacle s) = bullets s"
  "max_bullets (spawn_obstacle s) = max_bullets s"
  "shoot_cooldown (spawn_obstacle s) = shoot_cooldown s"
  "rapid_fire_timer (spawn_obstacle s) = rapid_fire_timer s"
  "level (spawn_obstacle s) = level s"
  "max_enemies_on_screen (spawn_obstacle s) = max_enemies_on_screen s"
  "playerX (spawn_obstacle s) = playerX s" "playerY (spawn_obstacle s) = playerY s"
  by (simp_all add: spawn_obstacle_def Let_def)

lemma update_player_frame [simp]:
  "lives (update_player s) = lives s" "game_over (update_player s) = game_over s"
  "game_state (update_player s) = game_state s" "bullets (update_player s) = bullets s"
  "max_bullets (update_player s) = max_bullets s"
  "shoot_cooldown (update_player s) = shoot_cooldown s"
  "rapid_fire_timer (update_player s) = rapid_fire_timer s"
  "level (update_player s) = level s"
  "max_enemies_on_screen (update_player s) = max_enemies_on_screen s"
  by (simp_all add: update_player_def Let_def)

lemma bullets_loop_frame [simp]:
  "lives (bullets_loop todo s) = lives s" "game_over (bullets_loop todo s) = game_over s"
  "game_state (bullets_loop todo s) = game_state s"
  "max_bullets (bullets_loop todo s) = max_bullets s"
  "shoot_cooldown (bullets_loop todo s) = shoot_cooldown s"
  "rapid_fire_timer (bullets_loop todo s) = rapid_fire_timer s"
  "level (bullets_loop todo s) = level s"
  "max_enemies_on_screen (bullets_loop todo s) = max_enemies_on_screen s"
  by (induction todo arbitrary: s; simp add: Let_def)+

lemma length_remove1_snoc: "length (remove1 x (xs @ [x])) = length xs"
  by (simp add: length_remove1)

lemma bullets_loop_length:
  "length (bullets (bullets_loop todo s)) \<le> length (bullets s) + length todo"
proof (induction todo arbitrary: s)
  case Nil
  show ?case by simp
next
  case (Cons b todo)
  let ?b = "b\<lparr>b_y := b_y b - b_speed b\<rparr>"
  show ?case
  proof (cases "b_y ?b < 0")
    case True
    have "length (bullets (bullets_loop todo (s\<lparr>bullets := remove1 ?b (bullets s @ [?b])\<rparr>)))
            \<le> length (remove1 ?b (bullets s @ [?b])) + length todo"
      using Cons.IH [of "s\<lparr>bullets := remove1 ?b (bullets s @ [?b])\<rparr>"] by simp
    with True show ?thesis by (simp add: Let_def length_remove1_snoc)
  next
    case False
    have "length (bullets (bullets_loop todo (s\<lparr>bullets := bullets s @ [?b]\<rparr>)))
            \<le> length (bullets s @ [?b]) + length todo"
      using Cons.IH [of "s\<lparr>bullets := bullets s @ [?b]\<rparr>"] by simp
    with False show ?thesis by (simp add: Let_def)
  qed
qed

lemma update_bullets_frame [simp]:
  "lives (update_bullets s) = lives s" "game_over (update_bullets s) = game_over s"
  "game_state (update_bullets s) = game_state s"
  "max_bullets (update_bullets s) = max_bullets s"
  "level (update_bullets s) = level s"
  "max_enemies_on_screen (update_bullets s) = max_enemies_on_screen s"
  by (simp_all add: update_bullets_def Let_def)

lemma update_bullets_cooldown:
  "0 \<le> shoot_cooldown s \<Longrightarrow> 0 \<le> shoot_cooldown (update_bullets s)"
  by (simp add: update_bullets_def Let_def)

lemma update_bullets_length: "length (bullets (update_bullets s)) \<le> length (bullets s)"
  unfolding update_bullets_def Let_def
  by (rule order_trans [OF bullets_loop_length]) simp

lemma power_ups_loop_frame [simp]:
  "lives (power_ups_loop todo s) = lives s" "game_over (power_ups_loop todo s) = game_over s"
  "game_state (power_ups_loop todo s) = game_state s"
  "max_bullets (power_ups_loop todo s) = max_bullets s"
  "shoot_cooldown (power_ups_loop todo s) = shoot_cooldown s"
  "bullets (power_ups_loop todo s) = bullets s"
  "level (power_ups_loop todo s) = level s"
  "max_enemies_on_screen (power_ups_loop todo s) = max_enemies_on_screen s"
  by (induction todo arbitrary: s; simp add: Let_def)+

lemma update_power_ups_frame [simp]:
  "lives (update_power_ups s) = lives s" "game_over (update_power_ups s) = game_over s"
  "game_state (update_power_ups s) = game_state s"
  "max_bullets (update_power_ups s) = max_bullets s"
  "shoot_cooldown (update_power_ups s) = shoot_cooldown s"
  "bullets (update_power_ups s) = bullets s"
  "level (update_power_ups s) = level s"
  "max_enemies_on_screen (update_power_ups s) = max_enemies_on_screen s"
  by (simp_all add: update_power_ups_def)

lemma level_up_frame [simp]:
  "lives (level_up s) = lives s" "game_over (level_up s) = game_over s"
  "game_state (level_up s) = game_state s" "max_bullets (level_up s) = max_bullets s"
  "shoot_cooldown (level_up s) = shoot_cooldown s" "bullets (level_up s) = bullets s"
  "rapid_fire_timer (level_up s) = rapid_fire_timer s"
  "score_value (level_up s) = score_value s" "enemies (level_up s) = enemies s"
  "playerX (level_up s) = playerX s" "playerY (level_up s) = playerY s"
  "obstacles (level_up s) = obstacles s"
  by (simp_all add: level_up_def Let_def)

lemma enemy_hit_frame [simp]:
  "lives (enemy_hit e b s) = lives s" "game_over (enemy_hit e b s) = game_over s"
  "game_state (enemy_hit e b s) = game_state s" "max_bullets (enemy_hit e b s) = max_bullets s"
  "shoot_cooldown (enemy_hit e b s) = shoot_cooldown s"
  "rapid_fire_timer (enemy_hit e b s) = rapid_fire_timer s"
  "bullets (enemy_hit e b s) = remove1 b (bullets s)"
  "playerX (enemy_hit e b s) = playerX s" "playerY (enemy_hit e b s) = playerY s"
  "obstacles (enemy_hit e b s) = obstacles s"
  by (simp_all add: enemy_hit_def Let_def)

lemma enemy_body_frame [simp]:
  "max_bullets (enemy_body e s) = max_bullets s"
  "shoot_cooldown (enemy_body e s) = shoot_cooldown s"
  "rapid_fire_timer (enemy_body e s) = rapid_fire_timer s"
  "playerX (enemy_body e s) = playerX s" "playerY (enemy_body e s) = playerY s"
  "obstacles (enemy_body e s) = obstacles s"
  by (simp_all add: enemy_body_def Let_def split: option.splits)

lemma enemy_body_bullets: "length (bullets (enemy_body e s)) \<le> length (bullets s)"
  by (simp add: enemy_body_def Let_def length_remove1 split: option.splits)

lemma enemy_body_over_inv: "over_inv s \<Longrightarrow> over_inv (enemy_body e s)"
  by (auto simp add: over_inv_def enemy_body_def Let_def split: option.splits)

lemma enemy_body_lives: "lives (enemy_body e s) \<le> lives s"
  by (simp add: enemy_body_def Let_def split: option.splits)

lemma enemies_loop_frame [simp]:
  "max_bullets (enemies_loop todo s) = max_bullets s"
  "shoot_cooldown (enemies_loop todo s) = shoot_cooldown s"
  "rapid_fire_timer (enemies_loop todo s) = rapid_fire_timer s"
  "playerX (enemies_loop todo s) = playerX s" "playerY (enemies_loop todo s) = playerY s"
  "obstacles (enemies_loop todo s) = obstacles s"
  by (induction todo arbitrary: s; simp)+

lemma enemies_loop_bullets: "length (bullets (enemies_loop todo s)) \<le> length (bullets s)"
proof (induction todo arbitrary: s)
  case Nil
  show ?case by simp
next
  case (Cons e todo)
  have "length (bullets (enemies_loop todo (enemy_body e s))) \<le> length (bullets (enemy_body e s))"
    by (rule Cons.IH)
  also have "\<dots> \<le> length (bullets s)" by (rule enemy_body_bullets)
  finally show ?case by simp
qed

lemma enemies_loop_over_inv: "over_inv s \<Longrightarrow> over_inv (enemies_loop todo s)"
  by (induction todo arbitrary: s) (simp_all add: enemy_body_over_inv)

lemma update_enemies_frame [simp]:
  "max_bullets (update_enemies s) = max_bullets s"
  "shoot_cooldown (update_enemies s) = shoot_cooldown s"
  "rapid_fire_timer (update_enemies s) = rapid_fire_timer s"
  "playerX (update_enemies s) = playerX s" "playerY (update_enemies s) = playerY s"
  "obstacles (update_enemies s) = obstacles s"
  by (simp_all add: update_enemies_def Let_def)

lemma update_enemies_bullets: "length (bullets (update_enemies s)) \<le> length (bullets s)"
  unfolding update_enemies_def Let_def
  by (rule order_trans [OF enemies_loop_bullets]) simp

lemma update_enemies_over_inv: "over_inv s \<Longrightarrow> over_inv (update_enemies s)"
  unfolding update_enemies_def Let_def
  by (rule enemies_loop_over_inv) (simp add: over_inv_def)

lemma obstacle_body_frame [simp]:
  "max_bullets (obstacle_body ob s) = max_bullets s"
  "shoot_cooldown (obstacle_body ob s) = shoot_cooldown s"
  "rapid_fire_timer (obstacle_body ob s) = rapid_fire_timer s"
  "playerX (obstacle_body ob s) = playerX s" "playerY (obstacle_body ob s) = playerY s"
  "level (obstacle_body ob s) = level s"
  "max_enemies_on_screen (obstacle_body ob s) = max_enemies_on_screen s"
  by (simp_all add: obstacle_body_def Let_def split: option.splits)

lemma obstacle_body_bullets: "length (bullets (obstacle_body ob s)) \<le> length (bullets s)"
  by (simp add: obstacle_body_def Let_def length_remove1 split: option.splits)

lemma obstacle_body_over_inv: "over_inv s \<Longrightarrow> over_inv (obstacle_body ob s)"
  by (auto simp add: over_inv_def obstacle_body_def Let_def split: option.splits)

lemma obstacles_loop_frame [simp]:
  "max_bullets (obstacles_loop todo s) = max_bullets s"
  "shoot_cooldown (obstacles_loop todo s) = shoot_cooldown s"
  "rapid_fire_timer (obstacles_loop todo s) = rapid_fire_timer s"
  "playerX (obstacles_loop todo s) = playerX s" "playerY (obstacles_loop todo s) = playerY s"
  "level (obstacles_loop todo s) = level s"
  "max_enemies_on_screen (obstacles_loop todo s) = max_enemies_on_screen s"
  by (induction todo arbitrary: s; simp)+

lemma obstacles_loop_bullets: "length (bullets (obstacles_loop todo s)) \<le> length (bullets s)"
proof (induction todo arbitrary: s)
  case Nil
  show ?case by simp
next
  case (Cons ob todo)
  have "length (bullets (obstacles_loop todo (obstacle_body ob s)))
          \<le> length (bullets (obstacle_body ob s))"
    by (rule Cons.IH)
  also have "\<dots> \<le> length (bullets s)" by (rule obstacle_body_bullets)
  finally show ?case by simp
qed

lemma obstacles_loop_over_inv: "over_inv s \<Longrightarrow> over_inv (obstacles_loop todo s)"
  by (induction todo arbitrary: s) (simp_all add: obstacle_body_over_inv)

lemma update_obstacles_frame [simp]:
  "max_bullets (update_obstacles s) = max_bullets s"
  "shoot_cooldown (update_obstacles s) = shoot_cooldown s"
  "rapid_fire_timer (update_obstacles s) = rapid_fire_timer s"
  "level (update_obstacles s) = level s"
  "max_enemies_on_screen (update_obstacles s) = max_enemies_on_screen s"
  by (simp_all add: update_obstacles_def Let_def)

lemma update_obstacles_bullets: "length (bullets (update_obstacles s)) \<le> length (bullets s)"
  unfolding update_obstacles_def Let_def
  by (rule order_trans [OF obstacles_loop_bullets]) simp

lemma update_obstacles_over_inv: "over_inv s \<Longrightarrow> over_inv (update_obstacles s)"
  unfolding update_obstacles_def Let_def
  by (rule obstacles_loop_over_inv) (simp add: over_inv_def)

lemma updates_over_inv: "over_inv s \<Longrightarrow> over_inv (updates s)"
  unfolding updates_def
  by (intro update_obstacles_over_inv update_enemies_over_inv) (simp add: over_inv_def)

lemma updates_bullets: "length (bullets (updates s)) \<le> length (bullets s)"
proof -
  have "length (bullets (updates s))
          \<le> length (bullets (update_enemies (update_power_ups (update_bullets (update_player s)))))"
    unfolding updates_def by (rule update_obstacles_bullets)
  also have "\<dots> \<le> length (bullets (update_power_ups (update_bullets (update_player s))))"
    by (rule update_enemies_bullets)
  also have "\<dots> \<le> length (bullets (update_player s))"
    using update_bullets_length [of "update_player s"] by simp
  finally show ?thesis by simp
qed

lemma updates_frame [simp]:
  "max_bullets (updates s) = max_bullets s"
  by (simp_all add: updates_def)

lemma updates_cooldown: "0 \<le> shoot_cooldown s \<Longrightarrow> 0 \<le> shoot_cooldown (updates s)"
  by (simp add: updates_def update_bullets_cooldown)

section \<open>Properties of the input handling\<close>

lemma create_bullet_frame [simp]:
  "lives (create_bullet s) = lives s" "game_over (create_bullet s) = game_over s"
  "game_state (create_bullet s) = game_state s" "max_bullets (create_bullet s) = max_bullets s"
  "rapid_fire_timer (create_bullet s) = rapid_fire_timer s"
  "level (create_bullet s) = level s"
  "max_enemies_on_screen (create_bullet s) = max_enemies_on_screen s"
  by (simp_all add: create_bullet_def Let_def)

lemma create_bullet_cooldown: "0 \<le> shoot_cooldown s \<Longrightarrow> 0 \<le> shoot_cooldown (create_bullet s)"
  by (simp add: create_bullet_def Let_def)

lemma create_bullet_length:
  "max_bullets s = 3 \<Longrightarrow>
   length (bullets (create_bullet s))
     \<le> max (length (bullets s)) (if rapid_fire_timer s > 0 then 5 else 3)"
  by (simp add: create_bullet_def Let_def)

lemma game_events_frame [simp]:
  "lives (snd (game_events es s)) = lives s" "game_over (snd (game_events es s)) = game_over s"
  "max_bullets (snd (game_events es s)) = max_bullets s"
  "rapid_fire_timer (snd (game_events es s)) = rapid_fire_timer s"
  "level (snd (game_events es s)) = level s"
  "max_enemies_on_screen (snd (game_events es s)) = max_enemies_on_screen s"
  by (induction es s rule: game_events.induct; simp)+

lemma game_events_mode:
  "game_state (snd (game_events es s)) = game_state s \<or> game_state (snd (game_events es s)) = MENU"
  by (induction es s rule: game_events.induct) auto

lemma game_events_cooldown: "0 \<le> shoot_cooldown s \<Longrightarrow> 0 \<le> shoot_cooldown (snd (game_events es s))"
  by (induction es s rule: game_events.induct) (simp_all add: create_bullet_cooldown)

lemma game_events_length:
  "max_bullets s = 3 \<Longrightarrow>
   length (bullets (snd (game_events es s)))
     \<le> max (length (bullets s)) (if rapid_fire_timer s > 0 then 5 else 3)"
proof (induction es s rule: game_events.induct)
  case (3 k es s)
  show ?case
  proof (cases "k = K_SPACE")
    case True
    have "length (bullets (snd (game_events es (create_bullet s))))
            \<le> max (length (bullets (create_bullet s))) (if rapid_fire_timer s > 0 then 5 else 3)"
      using "3.IH"(1) [OF True] "3.prems" by simp
    with create_bullet_length [OF "3.prems"] True show ?thesis by simp
  next
    case False
    with 3 show ?thesis by (cases "k = K_ESCAPE") simp_all
  qed
qed simp_all

lemma handle_game_input_snd:
  "\<exists>v. snd (handle_game_input inp s) = (snd (game_events (events inp) s))\<lparr>playerX_change := v\<rparr>"
proof (cases "game_events (events inp) s")
  case (Pair r s')
  show ?thesis
  proof (cases r)
    case True
    with Pair show ?thesis by (auto simp add: handle_game_input_def)
  next
    case False
    have "snd (handle_game_input inp s) = s'"
      using Pair False by (simp add: handle_game_input_def)
    then show ?thesis
      using Pair by (intro exI [of _ "playerX_change s'"]) simp
  qed
qed

lemma handle_menu_input_cases:
  "snd (handle_menu_input es s) = s \<or>
   (\<exists>x. snd (handle_menu_input es s) = (reset_game x)\<lparr>game_state := PLAYING\<rparr>)"
proof (induction es s rule: handle_menu_input.induct)
  case (3 k es s)
  show ?case
  proof (cases "k = K_SPACE")
    case True
    with "3.IH"(1) [OF True] show ?thesis by auto
  next
    case False
    with "3.IH"(2) show ?thesis by (cases "k = K_ESCAPE") simp_all
  qed
qed simp_all

lemma handle_game_over_input_cases:
  "snd (handle_game_over_input es s) = s \<or>
   (\<exists>x. snd (handle_game_over_input es s) = (reset_game x)\<lparr>game_state := PLAYING\<rparr>)"
proof (induction es s rule: handle_game_over_input.induct)
  case (3 k es s)
  show ?case
  proof (cases "k = K_r")
    case True
    with "3.IH"(1) [OF True] show ?thesis by auto
  next
    case False
    with "3.IH"(2) show ?thesis by (cases "k = K_ESCAPE") simp_all
  qed
qed simp_all

section \<open>One iteration of the main loop, by mode\<close>

lemma main_iteration_MENU:
  assumes "game_state s = MENU"
  shows "main_iteration inp s = s\<lparr>running := running (main_iteration inp s)\<rparr> \<or>
         (\<exists>x. main_iteration inp s
                = (reset_game x)\<lparr>game_state := PLAYING, running := running (main_iteration inp s)\<rparr>)"
proof (cases "handle_menu_input (events inp) s")
  case (Pair r s')
  with assms have m: "main_iteration inp s = s'\<lparr>running := r\<rparr>"
    by (simp add: main_iteration_def)
  from handle_menu_input_cases [of "events inp" s] Pair
  have "s' = s \<or> (\<exists>x. s' = (reset_game x)\<lparr>game_state := PLAYING\<rparr>)" by simp
  with m show ?thesis by auto
qed

lemma main_iteration_GAME_OVER:
  assumes "game_state s = GAME_OVER"
  shows "main_iteration inp s = s\<lparr>running := running (main_iteration inp s)\<rparr> \<or>
         (\<exists>x. main_iteration inp s
                = (reset_game x)\<lparr>game_state := PLAYING, running := running (main_iteration inp s)\<rparr>)"
proof (cases "handle_game_over_input (events inp) s")
  case (Pair r s')
  with assms have m: "main_iteration inp s = s'\<lparr>running := r\<rparr>"
    by (simp add: main_iteration_def)
  from handle_game_over_input_cases [of "events inp" s] Pair
  have "s' = s \<or> (\<exists>x. s' = (reset_game x)\<lparr>game_state := PLAYING\<rparr>)" by simp
  with m show ?thesis by auto
qed

lemma main_iteration_PLAYING:
  assumes "game_state s = PLAYING"
  shows "main_iteration inp s =
           (if game_over s then snd (handle_game_input inp s)
            else updates (snd (handle_game_input inp s)))
             \<lparr>running := fst (handle_game_input inp s)\<rparr>"
proof (cases "handle_game_input inp s")
  case (Pair r s')
  obtain v where "s' = (snd (game_events (events inp) s))\<lparr>playerX_change := v\<rparr>"
    using handle_game_input_snd [of inp s] Pair by auto
  then have "game_over s' = game_over s" by simp
  with assms Pair show ?thesis by (simp add: main_iteration_def)
qed

section \<open>The invariant of the reachable states\<close>

lemma tick_inv_reset: "tick_inv ((reset_game x)\<lparr>game_state := PLAYING, running := r\<rparr>)"
  by (simp add: tick_inv_def over_inv_def reset_game_fields)

lemma tick_inv_initial: "tick_inv (initial re ro rr)"
  by (simp add: tick_inv_def over_inv_def initial_def reset_game_fields)

lemma tick_inv_running: "tick_inv s \<Longrightarrow> tick_inv (s\<lparr>running := r\<rparr>)"
  by (simp add: tick_inv_def over_inv_def)

lemma tick_inv_step:
  assumes "tick_inv s"
  shows "tick_inv (main_iteration inp s)"
proof (cases "game_state s")
  case MENU
  with main_iteration_MENU [OF MENU, of inp] assms show ?thesis
    by (metis tick_inv_reset tick_inv_running)
next
  case GAME_OVER
  with main_iteration_GAME_OVER [OF GAME_OVER, of inp] assms show ?thesis
    by (metis tick_inv_reset tick_inv_running)
next
  case PLAYING
  obtain v where v: "snd (handle_game_input inp s) = (snd (game_events (events inp) s))\<lparr>playerX_change := v\<rparr>"
    using handle_game_input_snd [of inp s] by auto
  let ?g = "snd (game_events (events inp) s)"
  let ?h = "snd (handle_game_input inp s)"
  from assms PLAYING have l: "0 < lives s" "\<not> game_over s"
    by (auto simp add: tick_inv_def over_inv_def)
  have mode: "game_state ?g \<noteq> GAME_OVER"
    using game_events_mode [of "events inp" s] PLAYING by auto
  have len: "length (bullets ?g) \<le> 5"
    using game_events_length [of s "events inp"] assms by (auto simp add: tick_inv_def split: if_splits)
  have cd: "0 \<le> shoot_cooldown ?g"
    using game_events_cooldown [of s "events inp"] assms by (simp add: tick_inv_def)
  have h: "tick_inv ?h"
    using l mode len cd assms by (simp add: v tick_inv_def over_inv_def)
  have "tick_inv (updates ?h)"
    using h updates_over_inv [of ?h] updates_cooldown [of ?h] updates_bullets [of ?h]
    by (simp add: tick_inv_def)
  with l show ?thesis
    by (simp add: main_iteration_PLAYING [OF PLAYING] tick_inv_running)
qed

lemma reachable_tick_inv: "reachable s \<Longrightarrow> tick_inv s"
  by (induction rule: reachable.induct) (simp_all add: tick_inv_initial tick_inv_step)

section \<open>Evaluation of concrete sessions\<close>

text \<open>
  The distance test without the square root, and the equations that the simplifier needs
  to run the model on concrete states.
\<close>

lemma is_collision_sq [code]:
  "is_collision x1 y1 x2 y2 t \<longleftrightarrow>
     0 < t \<and> (x1 - x2) * (x1 - x2) + (y1 - y2) * (y1 - y2) < t * t"
proof (cases "0 < t")
  case True
  then have "sqrt (t\<^sup>2) = t" by simp
  then have "sqrt ((x1 - x2)\<^sup>2 + (y1 - y2)\<^sup>2) < t
               \<longleftrightarrow> sqrt ((x1 - x2)\<^sup>2 + (y1 - y2)\<^sup>2) < sqrt (t\<^sup>2)" by simp
  with True show ?thesis
    unfolding is_collision_def real_sqrt_less_iff by (simp add: power2_eq_square)
next
  case False
  have "0 \<le> sqrt ((x1 - x2)\<^sup>2 + (y1 - y2)\<^sup>2)" by simp
  with False show ?thesis unfolding is_collision_def by linarith
qed

lemma funpow_4: "(f ^^ 4) x = f (f (f (f x)))"
  by (simp add: numeral_eq_Suc)

lemma replicate_numeral: "replicate (numeral k) x = x # replicate (pred_numeral k) x"
  by (simp add: numeral_eq_Suc)

lemmas sim_defs = initial_def reset_game_def spawn_initial_enemies_def new_enemy_def spawn_enemy_def
  spawn_obstacle_def random_choice_def randint_def uniform_def random_random_def
  rect_overlap_def update_player_def create_bullet_def update_bullets_def
  update_power_ups_def move_enemy_def level_up_def enemy_hit_def enemy_body_def
  update_enemies_def obstacle_body_def update_obstacles_def handle_game_input_def
  updates_def main_iteration_def is_collision_sq Let_def funpow_4

lemma reachable_run: "reachable s \<Longrightarrow> reachable (run inps s)"
  by (induction inps arbitrary: s) (simp_all add: reachable_step)

lemma reachable_w0: "reachable w0"
  unfolding w0_def by (rule reachable_initial)

lemma doomed_eval: "doomed = doomed_state"
  by (simp add: doomed_def doomed_state_def w0_def left_draw_def no_obstacle_draw_def
      press_def idle_def sim_defs replicate_numeral)

lemma reachable_doomed: "reachable doomed"
  unfolding doomed_def by (rule reachable_run [OF reachable_w0])

lemma doomed_tick: "main_iteration idle doomed_state = over_state"
  by (simp add: doomed_state_def over_state_def idle_def sim_defs replicate_numeral)

lemma doomed_enemies:
  "update_enemies (update_power_ups (update_bullets (update_player
      (snd (handle_game_input idle doomed_state)))))
   = over_state\<lparr>obstacle_spawn_timer := 8\<rparr>"
  by (simp add: doomed_state_def over_state_def idle_def sim_defs replicate_numeral)

lemma doomed_obstacles:
  "update_obstacles (over_state\<lparr>obstacle_spawn_timer := 8\<rparr>) = over_state"
  by (simp add: over_state_def sim_defs)

lemma reachable_over_state: "reachable over_state"
proof -
  have "running doomed" by (simp add: doomed_eval doomed_state_def)
  then have "reachable (main_iteration idle doomed)"
    using reachable_doomed by (rule reachable_step [rotated])
  then show ?thesis by (simp add: doomed_eval doomed_tick)
qed

lemma over_state_idle: "main_iteration idle over_state = over_state"
  by (simp add: over_state_def idle_def main_iteration_def)

lemma doomed_fields:
  "running doomed" "\<not> game_over doomed" "lives doomed = 3" "game_state doomed = PLAYING"
  by (simp_all add: doomed_eval doomed_state_def)

lemma doomed_next: "main_iteration idle doomed = over_state"
  by (simp add: doomed_eval doomed_tick)

lemma over_state_fields:
  "running over_state" "game_over over_state" "lives over_state = - 1"
  "game_state over_state = GAME_OVER"
  by (simp_all add: over_state_def)

section \<open>Restart and the start state\<close>

lemma new_enemy_mode [simp]:
  "new_enemy (s\<lparr>game_state := m\<rparr>) = new_enemy s"
  "new_enemy (s\<lparr>running := r\<rparr>) = new_enemy s"
  by (simp_all add: new_enemy_def cong: if_cong)



section \<open>The choice of the enemy type\<close>

lemma lessThan_2: "{..<(2::nat)} = {0, 1}"
  by auto

lemma lessThan_3: "{..<(3::nat)} = {0, 1, 2}"
  by auto

lemma choice_two:
  "bij_betw (random_choice [ENEMY_BASIC, ENEMY_FAST]) {..<2} {ENEMY_BASIC, ENEMY_FAST}"
  unfolding bij_betw_def lessThan_2
  by (simp add: random_choice_def)

lemma choice_three:
  "bij_betw (random_choice [ENEMY_BASIC, ENEMY_FAST, ENEMY_TANK]) {..<3}
     {ENEMY_BASIC, ENEMY_FAST, ENEMY_TANK}"
  unfolding bij_betw_def lessThan_3
  by (simp add: random_choice_def)

lemma choice_periodic: "random_choice xs (i + length xs) = random_choice xs i"
  by (simp add: random_choice_def)

lemma new_enemy_fields:
  "e_type (new_enemy s) =
     (if level s < 3 then ENEMY_BASIC
      else if level s < 5 then
        random_choice [ENEMY_BASIC, ENEMY_FAST] (d_type (shd (rnd_enemy s)))
      else random_choice [ENEMY_BASIC, ENEMY_FAST, ENEMY_TANK] (d_type (shd (rnd_enemy s))))"
  "e_y_change (new_enemy s) = 30"
  by (simp_all add: new_enemy_def Let_def split: prod.splits)

section \<open>Restart, continued\<close>

lemma main_iteration_not_playing:
  assumes "game_state s = MENU \<or> game_state s = GAME_OVER"
  obtains (same) r where "main_iteration inp s = s\<lparr>running := r\<rparr>"
    | (reset) x r where "main_iteration inp s = (reset_game x)\<lparr>game_state := PLAYING, running := r\<rparr>"
  using assms main_iteration_MENU [of s inp] main_iteration_GAME_OVER [of s inp] by blast

lemma w0_start: "main_iteration (press K_SPACE) w0 = (reset_game w0)\<lparr>game_state := PLAYING\<rparr>"
proof -
  have "game_state w0 = MENU" "running w0"
    by (simp_all add: w0_def initial_def reset_game_fields)
  then show ?thesis
    by (simp add: main_iteration_def press_def reset_game_fields)
qed

lemma over_state_restart:
  "main_iteration (press K_r) over_state = (reset_game over_state)\<lparr>game_state := PLAYING\<rparr>"
proof -
  have "game_state over_state = GAME_OVER" "running over_state"
    by (simp_all add: over_state_def)
  then show ?thesis
    by (simp add: main_iteration_def press_def reset_game_fields)
qed


section \<open>The move of an enemy\<close>






section \<open>Level-up and the enemy cap\<close>

lemma cap_inv_update [simp]:
  "cap_inv (s\<lparr>lives := a\<rparr>) = cap_inv s" "cap_inv (s\<lparr>enemies := b\<rparr>) = cap_inv s"
  "cap_inv (s\<lparr>game_over := c\<rparr>) = cap_inv s" "cap_inv (s\<lparr>game_state := d\<rparr>) = cap_inv s"
  "cap_inv (s\<lparr>bullets := e\<rparr>) = cap_inv s" "cap_inv (s\<lparr>score_value := f\<rparr>) = cap_inv s"
  "cap_inv (s\<lparr>power_ups := g\<rparr>) = cap_inv s" "cap_inv (s\<lparr>rnd_roll := h\<rparr>) = cap_inv s"
  "cap_inv (s\<lparr>enemy_spawn_timer := i\<rparr>) = cap_inv s" "cap_inv (s\<lparr>running := j\<rparr>) = cap_inv s"
  "cap_inv (s\<lparr>playerX_change := k\<rparr>) = cap_inv s"
  by (simp_all add: cap_inv_def)

lemma cap_inv_fields:
  "level s' = level s \<Longrightarrow> max_enemies_on_screen s' = max_enemies_on_screen s \<Longrightarrow>
   cap_inv s' = cap_inv s"
  by (simp add: cap_inv_def)

lemma level_up_result:
  "level (level_up s) =
     (if (150 + 50 * level s) * level s \<le> score_value s then level s + 1 else level s)"
  "difficulty_multiplier (level_up s) =
     (if (150 + 50 * level s) * level s \<le> score_value s then difficulty_multiplier s + 0.2
      else difficulty_multiplier s)"
  "max_enemies_on_screen (level_up s) =
     (if (150 + 50 * level s) * level s \<le> score_value s then min 8 (4 + (level s + 1))
      else max_enemies_on_screen s)"
  by (simp_all add: level_up_def Let_def algebra_simps)

lemma level_up_cap_inv: "cap_inv s \<Longrightarrow> cap_inv (level_up s)"
  by (simp add: cap_inv_def level_up_result)


lemma enemy_hit_cap_inv: "cap_inv s \<Longrightarrow> cap_inv (enemy_hit e b s)"
  by (simp add: enemy_hit_def Let_def level_up_cap_inv)


lemma enemy_body_cap_inv: "cap_inv s \<Longrightarrow> cap_inv (enemy_body e s)"
  by (simp add: enemy_body_def Let_def enemy_hit_cap_inv split: option.splits)


lemma enemies_loop_cap_inv: "cap_inv s \<Longrightarrow> cap_inv (enemies_loop todo s)"
  by (induction todo arbitrary: s) (simp_all add: enemy_body_cap_inv)

lemma update_enemies_cap_inv: "cap_inv s \<Longrightarrow> cap_inv (update_enemies s)"
  unfolding update_enemies_def Let_def
  by (rule enemies_loop_cap_inv) (simp add: cap_inv_def)

lemma updates_cap_inv:
  assumes "cap_inv s"
  shows "cap_inv (updates s)"
proof -
  have "cap_inv (update_power_ups (update_bullets (update_player s)))"
    using assms by (simp add: cap_inv_def)
  then have "cap_inv (update_enemies (update_power_ups (update_bullets (update_player s))))"
    by (rule update_enemies_cap_inv)
  then show ?thesis
    by (simp add: updates_def cap_inv_def)
qed

lemma reachable_cap_inv: "reachable s \<Longrightarrow> cap_inv s"
proof (induction rule: reachable.induct)
  case (reachable_initial re ro rr)
  show ?case by (simp add: cap_inv_def initial_def reset_game_fields)
next
  case (reachable_step s inp)
  show ?case
  proof (cases "game_state s = PLAYING")
    case False
    then have "game_state s = MENU \<or> game_state s = GAME_OVER"
      by (cases "game_state s") simp_all
    then show ?thesis
    proof (cases rule: main_iteration_not_playing [of s inp])
      case (same r)
      with reachable_step.IH show ?thesis by simp
    next
      case (reset x r)
      then show ?thesis by (simp add: cap_inv_def reset_game_fields)
    qed
  next
    case True
    obtain v where v: "snd (handle_game_input inp s)
        = (snd (game_events (events inp) s))\<lparr>playerX_change := v\<rparr>"
      using handle_game_input_snd [of inp s] by auto
    have "cap_inv (snd (game_events (events inp) s))"
      using reachable_step.IH by (simp add: cap_inv_def)
    then have h: "cap_inv (snd (handle_game_input inp s))"
      by (simp add: v)
    then have "cap_inv (updates (snd (handle_game_input inp s)))"
      by (rule updates_cap_inv)
    with h show ?thesis
      by (simp add: main_iteration_PLAYING [OF True])
  qed
qed

section \<open>The obstacle loop\<close>

lemma hits_player_frame [simp]:
  "hits_player (s\<lparr>obstacles := a\<rparr>) = hits_player s"
  "hits_player (s\<lparr>bullets := b\<rparr>) = hits_player s"
  "hits_player (s\<lparr>lives := c\<rparr>) = hits_player s"
  "hits_player (s\<lparr>game_over := d\<rparr>) = hits_player s"
  "hits_player (s\<lparr>game_state := e\<rparr>) = hits_player s"
  "hits_player (s\<lparr>obstacle_spawn_timer := f\<rparr>) = hits_player s"
  "hits_player (s\<lparr>rnd_obstacle := g\<rparr>) = hits_player s"
  by (simp_all add: hits_player_def fun_eq_iff)

lemma hits_player_obstacle_body [simp]: "hits_player (obstacle_body ob s) = hits_player s"
  by (simp add: hits_player_def fun_eq_iff)

lemma remove1_snoc_fresh: "x \<notin> set xs \<Longrightarrow> remove1 x (xs @ [x]) = xs"
  by (simp add: remove1_append)

lemma obstacle_body_result:
  assumes "\<forall>ob' \<in> set (obstacles s). \<not> off_bottom ob' \<and> \<not> hits_player s ob'"
  shows "obstacles (obstacle_body ob s) =
           obstacles s @ filter (\<lambda>ob'. \<not> off_bottom ob' \<and> \<not> hits_player s ob') [fallen ob]"
    and "lives (obstacle_body ob s) =
           lives s - int (length (filter (\<lambda>ob'. \<not> off_bottom ob' \<and> hits_player s ob') [fallen ob]))"
proof -
  have fresh: "fallen ob \<notin> set (obstacles s)"
    if "off_bottom (fallen ob) \<or> hits_player s (fallen ob)"
    using that assms by auto
  show "obstacles (obstacle_body ob s) =
           obstacles s @ filter (\<lambda>ob'. \<not> off_bottom ob' \<and> \<not> hits_player s ob') [fallen ob]"
    using fresh
    by (auto simp add: obstacle_body_def Let_def remove1_snoc_fresh
        fallen_def [symmetric] off_bottom_def [symmetric] hits_player_def [symmetric]
        split: option.splits)
  show "lives (obstacle_body ob s) =
           lives s - int (length (filter (\<lambda>ob'. \<not> off_bottom ob' \<and> hits_player s ob') [fallen ob]))"
    by (auto simp add: obstacle_body_def Let_def
        fallen_def [symmetric] off_bottom_def [symmetric] hits_player_def [symmetric]
        split: option.splits)
qed

lemma obstacles_loop_result:
  assumes "\<forall>ob' \<in> set (obstacles s). \<not> off_bottom ob' \<and> \<not> hits_player s ob'"
  shows "obstacles (obstacles_loop todo s) =
           obstacles s @ filter (\<lambda>ob'. \<not> off_bottom ob' \<and> \<not> hits_player s ob') (map fallen todo) \<and>
         lives (obstacles_loop todo s) =
           lives s - int (length (filter (\<lambda>ob'. \<not> off_bottom ob' \<and> hits_player s ob')
                                     (map fallen todo)))"
  using assms
proof (induction todo arbitrary: s)
  case Nil
  show ?case by simp
next
  case (Cons ob todo)
  note body = obstacle_body_result [OF Cons.prems, of ob]
  have inv: "\<forall>ob' \<in> set (obstacles (obstacle_body ob s)).
               \<not> off_bottom ob' \<and> \<not> hits_player (obstacle_body ob s) ob'"
    using Cons.prems by (auto simp add: body(1))
  show ?case
    using Cons.IH [OF inv] by (simp add: body)
qed

section \<open>The session with a rapid-fire pickup\<close>

lemmas rapid_defs = harmless_draw_def target_draw_def near_obstacle_draw_def
  far_obstacle_draw_def press_def idle_def sim_defs replicate_numeral

lemma run_append: "run (xs @ ys) s = run ys (run xs s)"
proof (induction xs arbitrary: s)
  case Nil
  show ?case by simp
next
  case (Cons x xs)
  show ?case
  proof (cases "running s")
    case True
    with Cons show ?thesis by simp
  next
    case False
    then have "run ys s = s" by (cases ys) simp_all
    with False show ?thesis by simp
  qed
qed

lemma rapid_run_1: "run rapid_inputs_1 rapid_start = absorb_pre"
  by (simp add: rapid_inputs_1_def rapid_start_def absorb_pre_def rapid_defs)

lemma absorb_tick: "main_iteration idle absorb_pre = absorb_post"
  by (simp add: absorb_pre_def absorb_post_def rapid_defs)

lemma rapid_run_2a: "run (replicate 32 idle) absorb_post = hit_pre"
  by (simp add: absorb_post_def hit_pre_def rapid_defs)

lemma hit_tick: "main_iteration idle hit_pre = hit_post"
  by (simp add: hit_pre_def hit_post_def rapid_defs)

lemma rapid_run_2b: "run (replicate 120 idle) hit_post = rapid_265"
  by (simp add: hit_post_def rapid_265_def rapid_defs)

lemma rapid_run_3: "run (replicate 155 idle) rapid_265 = rapid_420"
  by (simp add: rapid_265_def rapid_420_def rapid_defs)

lemma rapid_run_4: "run rapid_inputs_4 rapid_420 = expiry_pre"
  by (simp add: rapid_inputs_4_def rapid_420_def expiry_pre_def rapid_defs)

lemma expiry_tick: "main_iteration (press K_SPACE) expiry_pre = expiry_post"
  by (simp add: expiry_pre_def expiry_post_def rapid_defs)

lemma reachable_rapid_start: "reachable rapid_start"
  unfolding rapid_start_def by (rule reachable_initial)

lemma reachable_absorb_pre: "reachable absorb_pre"
  using reachable_run [OF reachable_rapid_start, of rapid_inputs_1] by (simp add: rapid_run_1)

lemma running_states:
  "running absorb_pre" "running absorb_post" "running hit_pre" "running hit_post"
  "running rapid_265" "running rapid_420" "running expiry_pre" "running expiry_post"
  by (simp_all add: absorb_pre_def absorb_post_def hit_pre_def hit_post_def rapid_265_def
      rapid_420_def expiry_pre_def expiry_post_def)

lemma reachable_absorb_post: "reachable absorb_post"
  using reachable_step [OF reachable_absorb_pre running_states(1), of idle]
  by (simp add: absorb_tick)

lemma reachable_hit_pre: "reachable hit_pre"
  using reachable_run [OF reachable_absorb_post, of "replicate 32 idle"]
  by (simp add: rapid_run_2a)

lemma reachable_hit_post: "reachable hit_post"
  using reachable_step [OF reachable_hit_pre running_states(3), of idle]
  by (simp add: hit_tick)

lemma reachable_expiry_pre: "reachable expiry_pre"
proof -
  have "reachable rapid_265"
    using reachable_run [OF reachable_hit_post, of "replicate 120 idle"]
    by (simp add: rapid_run_2b)
  then have "reachable rapid_420"
    using reachable_run [of rapid_265 "replicate 155 idle"] by (simp add: rapid_run_3)
  then show ?thesis
    using reachable_run [of rapid_420 rapid_inputs_4] by (simp add: rapid_run_4)
qed

lemma run_step: "running s \<Longrightarrow> run (inp # inps) s = run inps (main_iteration inp s)"
  by simp

lemma rapid_session: "run rapid_inputs rapid_start = expiry_post"
  unfolding rapid_inputs_def run_append rapid_run_1 run_step [OF running_states(1)] absorb_tick
    rapid_run_2a run_step [OF running_states(3)] hit_tick rapid_run_2b rapid_run_3 rapid_run_4
  by (simp add: running_states expiry_tick)

lemma absorb_fields:
  "bullets absorb_pre = [\<lparr>b_x = 368, b_y = 220, b_speed = 10\<rparr>]"
  "obstacles absorb_pre =
     [\<lparr>o_x = 368, o_y = 192, o_w = 20, o_h = 20, o_speed = 8, o_color = (200, 180, 60)\<rparr>]"
  "lives absorb_pre = 3"
  "bullets absorb_post = []"
  "obstacles absorb_post =
     [\<lparr>o_x = 368, o_y = 200, o_w = 20, o_h = 20, o_speed = 8, o_color = (200, 180, 60)\<rparr>]"
  "lives absorb_post = 3"
  by (simp_all add: absorb_pre_def absorb_post_def)

lemma expiry_fields:
  "length (bullets expiry_pre) = 4" "rapid_fire_timer expiry_pre = 1"
  "length (bullets expiry_post) = 5" "rapid_fire_timer expiry_post = 0"
  "max_bullets expiry_post = 3"
  by (simp_all add: expiry_pre_def expiry_post_def)

lemma hit_pre_obstacles:
  "obstacles hit_pre =
     [\<lparr>o_x = 368, o_y = 456, o_w = 20, o_h = 20, o_speed = 8, o_color = (200, 180, 60)\<rparr>]"
  "lives hit_pre = 3" "playerX hit_pre = 368" "playerY hit_pre = 480" "level hit_pre = 1"
  "obstacle_spawn_timer hit_pre = 59"
  by (simp_all add: hit_pre_def)

section \<open>The state before the first level-up\<close>



section \<open>The abandoned session\<close>





section \<open>C1: lives and the game-over mode\<close>

text \<open>
  C1, as stated, fails: the lives counter can fall below 0. In the session \<open>doomed\<close> the
  four enemies are in the player zone in the same tick; each of them costs a life and
  the loop of \<open>update_enemies\<close> does not stop when the flag is set, so the reachable
  state after that tick has \<open>lives = -1\<close>.
\<close>

theorem negative_lives_reachable:
  "reachable (main_iteration idle doomed) \<and> lives (main_iteration idle doomed) = - 1"
  using reachable_over_state by (simp add: doomed_next over_state_fields)

text \<open>
  C1, amended: in every reachable state of a running session the lives counter is
  positive as long as the game-over flag is clear, the mode is GAME_OVER exactly when
  lives is at most 0, and a tick moves the mode to GAME_OVER if and only if lives goes
  from a value above 0 to a value of at most 0 during that tick.
\<close>

theorem game_over_iff_lives_exhausted:
  assumes "reachable s" and "running s"
  shows "(\<not> game_over s \<longrightarrow> 0 < lives s) \<and>
         (game_state s = GAME_OVER \<longleftrightarrow> lives s \<le> 0) \<and>
         (game_state s \<noteq> GAME_OVER \<and> game_state (main_iteration inp s) = GAME_OVER
            \<longleftrightarrow> 0 < lives s \<and> lives (main_iteration inp s) \<le> 0)"
proof -
  have "reachable (main_iteration inp s)"
    using assms by (rule reachable_step)
  then have "over_inv (main_iteration inp s)"
    using reachable_tick_inv by (simp add: tick_inv_def)
  moreover have "over_inv s"
    using assms(1) reachable_tick_inv by (simp add: tick_inv_def)
  ultimately show ?thesis
    unfolding over_inv_def by auto
qed

text \<open>The amended C1 at the last tick of the session \<open>doomed\<close>.\<close>

theorem game_over_iff_lives_exhausted_witness:
  "reachable doomed \<and> running doomed \<and> \<not> game_over doomed \<and> lives doomed = 3 \<and>
   game_state doomed = PLAYING \<and> game_state (main_iteration idle doomed) = GAME_OVER \<and>
   lives (main_iteration idle doomed) = - 1"
  using game_over_iff_lives_exhausted [OF reachable_doomed doomed_fields(1), of idle]
    reachable_doomed
  by (simp add: doomed_fields doomed_next over_state_fields)

section \<open>C2: updates after the game-over flag\<close>

text \<open>
  C2, as stated, fails within the tick that sets the flag: in the last tick of the
  session \<open>doomed\<close> the flag is set by \<open>update_enemies\<close> (which goes on to take lives
  down to -1), and \<open>update_obstacles\<close> still runs on the flagged state and changes it.
\<close>

theorem updates_continue_after_flag:
  "reachable doomed \<and> running doomed \<and>
   (let s1 = update_enemies (update_power_ups (update_bullets (update_player
               (snd (handle_game_input idle doomed)))))
    in game_over s1 \<and> lives s1 = - 1 \<and> update_obstacles s1 \<noteq> s1 \<and>
       main_iteration idle doomed = update_obstacles s1)"
proof -
  have "over_state\<lparr>obstacle_spawn_timer := 8\<rparr> \<noteq> over_state"
  proof
    assume "over_state\<lparr>obstacle_spawn_timer := 8\<rparr> = over_state"
    then have "obstacle_spawn_timer (over_state\<lparr>obstacle_spawn_timer := 8\<rparr>)
                 = obstacle_spawn_timer over_state" by simp
    then show False by (simp add: over_state_def)
  qed
  then have "update_obstacles (over_state\<lparr>obstacle_spawn_timer := 8\<rparr>)
               \<noteq> over_state\<lparr>obstacle_spawn_timer := 8\<rparr>"
    by (simp add: doomed_obstacles)
  moreover have "update_enemies (update_power_ups (update_bullets (update_player
               (snd (handle_game_input idle doomed))))) = over_state\<lparr>obstacle_spawn_timer := 8\<rparr>"
    by (simp add: doomed_eval doomed_enemies)
  ultimately show ?thesis
    using reachable_doomed
    by (simp add: doomed_fields doomed_next doomed_obstacles over_state_fields)
qed

text \<open>
  C2, amended: in a reachable state of a running session the game-over flag is set
  exactly when lives is at most 0, and a tick that starts with the flag set either
  leaves the whole state as it is or is a restart, which yields a state built by
  \<open>reset_game\<close> in mode PLAYING. (Within the tick that sets the flag the updates go
  on, as the counterexample shows.)
\<close>

theorem frozen_after_game_over:
  assumes "reachable s" and "running s"
  shows "(game_over s \<longleftrightarrow> lives s \<le> 0) \<and>
         (game_over s \<longrightarrow>
            main_iteration inp s = s\<lparr>running := running (main_iteration inp s)\<rparr> \<or>
            (\<exists>x. main_iteration inp s =
                   (reset_game x)\<lparr>game_state := PLAYING,
                                  running := running (main_iteration inp s)\<rparr>))"
proof -
  have inv: "over_inv s"
    using assms(1) reachable_tick_inv by (simp add: tick_inv_def)
  then have "game_over s \<longleftrightarrow> lives s \<le> 0"
    by (simp add: over_inv_def)
  moreover have "main_iteration inp s = s\<lparr>running := running (main_iteration inp s)\<rparr> \<or>
            (\<exists>x. main_iteration inp s =
                   (reset_game x)\<lparr>game_state := PLAYING,
                                  running := running (main_iteration inp s)\<rparr>)"
    if "game_over s"
  proof -
    from inv that have "game_state s = GAME_OVER"
      by (simp add: over_inv_def)
    with main_iteration_GAME_OVER [of s inp] show ?thesis by simp
  qed
  ultimately show ?thesis by blast
qed

text \<open>The amended C2 at the final state of the session \<open>doomed\<close>.\<close>

theorem frozen_after_game_over_witness:
  "reachable over_state \<and> running over_state \<and> game_over over_state \<and>
   lives over_state = - 1 \<and> main_iteration idle over_state = over_state"
  using frozen_after_game_over [OF reachable_over_state over_state_fields(1), of idle]
    reachable_over_state
  by (simp add: over_state_idle over_state_fields)

section \<open>C3: the number of bullets\<close>

text \<open>
  C3, as stated, fails when rapid fire runs out: in the session with the rapid-fire
  pickup the player has four bullets in flight and fires a fifth in the tick in which
  the timer goes from 1 to 0. At the end of that tick five bullets are alive while the
  effective cap is \<open>max_bullets = 3\<close>.
\<close>

theorem bullets_exceed_cap_after_rapid_fire:
  "reachable expiry_pre \<and> running expiry_pre \<and>
   length (bullets expiry_pre) = 4 \<and> rapid_fire_timer expiry_pre = 1 \<and>
   rapid_fire_timer (main_iteration (press K_SPACE) expiry_pre) = 0 \<and>
   max_bullets (main_iteration (press K_SPACE) expiry_pre) = 3 \<and>
   length (bullets (main_iteration (press K_SPACE) expiry_pre)) = 5"
  using reachable_expiry_pre
  by (simp add: running_states expiry_tick expiry_fields)

text \<open>
  C3, amended: at the end of every tick of a session the number of live bullets is at
  most 5, and it is at most the larger of the number at the start of the tick and the
  effective cap at the start of the tick (5 while the rapid-fire timer is positive, 3
  otherwise).
\<close>

theorem bullet_count_bound:
  assumes "reachable s" and "running s"
  shows "length (bullets (main_iteration inp s)) \<le> 5 \<and>
         length (bullets (main_iteration inp s))
           \<le> max (length (bullets s)) (if rapid_fire_timer s > 0 then 5 else 3)"
proof -
  have "reachable (main_iteration inp s)"
    using assms by (rule reachable_step)
  then have five: "length (bullets (main_iteration inp s)) \<le> 5"
    using reachable_tick_inv by (simp add: tick_inv_def)
  have mb: "max_bullets s = 3"
    using assms(1) reachable_tick_inv by (simp add: tick_inv_def)
  have "length (bullets (main_iteration inp s))
           \<le> max (length (bullets s)) (if rapid_fire_timer s > 0 then 5 else 3)"
  proof (cases "game_state s = PLAYING")
    case False
    then have "game_state s = MENU \<or> game_state s = GAME_OVER"
      by (cases "game_state s") simp_all
    then show ?thesis
    proof (cases rule: main_iteration_not_playing [of s inp])
      case (same r)
      then show ?thesis by simp
    next
      case (reset x r)
      then show ?thesis by (simp add: reset_game_fields)
    qed
  next
    case True
    note PLAYING = True
    obtain v where v: "snd (handle_game_input inp s)
        = (snd (game_events (events inp) s))\<lparr>playerX_change := v\<rparr>"
      using handle_game_input_snd [of inp s] by auto
    have h: "length (bullets (snd (handle_game_input inp s)))
               \<le> max (length (bullets s)) (if rapid_fire_timer s > 0 then 5 else 3)"
      using game_events_length [OF mb, of "events inp"] by (simp add: v)
    have "length (bullets (updates (snd (handle_game_input inp s))))
            \<le> length (bullets (snd (handle_game_input inp s)))"
      by (rule updates_bullets)
    with h show ?thesis
      by (auto simp add: main_iteration_PLAYING [OF PLAYING] split: if_splits)
  qed
  with five show ?thesis by simp
qed

text \<open>The amended C3 at the tick in which rapid fire runs out.\<close>

theorem bullet_count_bound_witness:
  "reachable expiry_pre \<and> running expiry_pre \<and>
   length (bullets (main_iteration (press K_SPACE) expiry_pre)) \<le> 5 \<and>
   length (bullets (main_iteration (press K_SPACE) expiry_pre))
     \<le> max (length (bullets expiry_pre)) 5"
  using bullet_count_bound [OF reachable_expiry_pre running_states(7), of "press K_SPACE"]
    reachable_expiry_pre
  by (simp add: running_states expiry_fields)

section \<open>C4: obstacles\<close>

text \<open>
  C4, as stated, fails for the bullet: in tick 112 of the session with the rapid-fire
  pickup the bullet (moved to height 210) overlaps the obstacle (moved to height 200);
  the bullet is removed, the obstacle is still in the list at the end of the tick, and
  no life is lost.
\<close>

theorem absorbing_obstacle_survives:
  "reachable absorb_pre \<and> running absorb_pre \<and>
   bullets absorb_pre = [\<lparr>b_x = 368, b_y = 220, b_speed = 10\<rparr>] \<and>
   obstacles absorb_pre =
     [\<lparr>o_x = 368, o_y = 192, o_w = 20, o_h = 20, o_speed = 8, o_color = (200, 180, 60)\<rparr>] \<and>
   rect_overlap 368 210 8 16 368 200 20 20 \<and>
   bullets (main_iteration idle absorb_pre) = [] \<and>
   obstacles (main_iteration idle absorb_pre) =
     [\<lparr>o_x = 368, o_y = 200, o_w = 20, o_h = 20, o_speed = 8, o_color = (200, 180, 60)\<rparr>] \<and>
   lives (main_iteration idle absorb_pre) = lives absorb_pre"
  using reachable_absorb_pre
  by (simp add: running_states absorb_tick absorb_fields rect_overlap_def)

text \<open>
  C4, amended: an obstacle is destroyed in exactly two cases, when its move takes it
  past the bottom edge of the screen and when it hits the player, which costs one life.
  The obstacles after \<open>update_obstacles\<close> are the moved obstacles that are neither past
  the bottom edge nor overlapping the player, in their order, whatever the bullets are;
  an obstacle that absorbs a bullet stays in the list.
\<close>

theorem obstacle_destruction:
  "obstacles (update_obstacles s) =
     filter (\<lambda>ob. \<not> off_bottom ob \<and> \<not> hits_player s ob) (map fallen (obstacles_in_play s)) \<and>
   lives (update_obstacles s) =
     lives s - int (length (filter (\<lambda>ob. \<not> off_bottom ob \<and> hits_player s ob)
                               (map fallen (obstacles_in_play s))))"
proof -
  let ?s1 = "s\<lparr>obstacle_spawn_timer := obstacle_spawn_timer s + 1\<rparr>"
  let ?s2 = "if obstacle_spawn_timer ?s1 \<ge> max 30 (OBSTACLE_SPAWN_RATE - level ?s1 * 5)
             then (spawn_obstacle ?s1)\<lparr>obstacle_spawn_timer := 0\<rparr> else ?s1"
  have u: "update_obstacles s = obstacles_loop (obstacles ?s2) (?s2\<lparr>obstacles := []\<rparr>)"
    by (simp add: update_obstacles_def Let_def)
  have o: "obstacles ?s2 = obstacles_in_play s"
    by (simp add: obstacles_in_play_def spawn_obstacle_def Let_def)
  have h: "hits_player (?s2\<lparr>obstacles := []\<rparr>) = hits_player s"
    by (simp add: spawn_obstacle_def Let_def)
  have l: "lives (?s2\<lparr>obstacles := []\<rparr>) = lives s"
    by simp
  have e: "obstacles (?s2\<lparr>obstacles := []\<rparr>) = []"
    by simp
  have "\<forall>ob' \<in> set (obstacles (?s2\<lparr>obstacles := []\<rparr>)).
          \<not> off_bottom ob' \<and> \<not> hits_player (?s2\<lparr>obstacles := []\<rparr>) ob'"
    unfolding e by simp
  from obstacles_loop_result [OF this, of "obstacles ?s2"] show ?thesis
    unfolding u h l e o by simp
qed

text \<open>
  The amended C4 at the state of the same session in which the obstacle reaches the
  player: it is removed and costs one life.
\<close>

theorem obstacle_destruction_witness:
  "obstacles hit_pre =
     [\<lparr>o_x = 368, o_y = 456, o_w = 20, o_h = 20, o_speed = 8, o_color = (200, 180, 60)\<rparr>] \<and>
   obstacles (update_obstacles hit_pre) = [] \<and>
   lives (update_obstacles hit_pre) = lives hit_pre - 1"
  using obstacle_destruction [of hit_pre]
  by (simp add: hit_pre_obstacles obstacles_in_play_def fallen_def off_bottom_def
      hits_player_def rect_overlap_def)

section \<open>C5: the fire action\<close>

text \<open>
  C5: at any point of the input handling of a tick that starts in a reachable state,
  \<open>create_bullet\<close> adds a bullet if and only if the shoot cooldown is 0 and the number
  of bullets is below the effective maximum (5 during rapid fire, else 3); the bullet is
  created at the player's position, the cooldown becomes 5 during rapid fire and 15
  otherwise, and when the condition fails the state is returned unchanged.
\<close>

theorem fire_action:
  assumes "reachable s0" and "s = snd (game_events es s0)"
  shows "create_bullet s =
           (if shoot_cooldown s = 0 \<and>
               int (length (bullets s)) < (if rapid_fire_timer s > 0 then 5 else 3)
            then s\<lparr>bullets := bullets s @ [\<lparr>b_x = playerX s, b_y = playerY s, b_speed = 10\<rparr>],
                   shoot_cooldown := (if rapid_fire_timer s > 0 then 5 else 15)\<rparr>
            else s) \<and>
         (length (bullets (create_bullet s)) = Suc (length (bullets s)) \<longleftrightarrow>
            shoot_cooldown s = 0 \<and>
            int (length (bullets s)) < (if rapid_fire_timer s > 0 then 5 else 3))"
proof -
  from assms(1) have "0 \<le> shoot_cooldown s0" and "max_bullets s0 = 3"
    using reachable_tick_inv by (simp_all add: tick_inv_def)
  with assms(2) have "0 \<le> shoot_cooldown s" and "max_bullets s = 3"
    by (simp_all add: game_events_cooldown)
  then show ?thesis
    by (simp add: create_bullet_def Let_def)
qed

text \<open>
  C5 in the session \<open>doomed\<close>: the first shot succeeds, a second one in the same tick
  does nothing.
\<close>

theorem fire_action_witness:
  "reachable doomed \<and>
   create_bullet doomed =
     doomed\<lparr>bullets := [\<lparr>b_x = 368, b_y = 480, b_speed = 10\<rparr>], shoot_cooldown := 15\<rparr> \<and>
   create_bullet (create_bullet doomed) = create_bullet doomed"
proof -
  have a: "doomed = snd (game_events [] doomed)" by simp
  have b: "create_bullet doomed = snd (game_events [KEYDOWN K_SPACE] doomed)" by simp
  have c: "create_bullet doomed =
     doomed\<lparr>bullets := [\<lparr>b_x = 368, b_y = 480, b_speed = 10\<rparr>], shoot_cooldown := 15\<rparr>"
    using fire_action [OF reachable_doomed a]
    by (simp add: doomed_eval) (simp add: doomed_state_def)
  have "create_bullet (create_bullet doomed) = create_bullet doomed"
    using fire_action [OF reachable_doomed b] by (simp add: c)
  with c reachable_doomed show ?thesis by simp
qed

section \<open>C6: the enemy spawner\<close>

text \<open>
  C6: on any state \<open>spawn_enemy\<close> returns the state unchanged when the number of
  enemies has reached \<open>max_enemies_on_screen\<close>, and otherwise appends exactly one enemy
  (and advances the random tape); its type is Basic below level 3, the element of
  \<open>[Basic, Fast]\<close> selected by the draw on levels 3 and 4, and the element of
  \<open>[Basic, Fast, Tank]\<close> selected by the draw from level 5 on. The draw is an index,
  and the selection maps the indices below the length one-to-one onto the types and is
  periodic in the draw, so a uniform index gives a uniform choice.
\<close>

theorem spawn_enemy_contract:
  "(max_enemies_on_screen s \<le> int (length (enemies s)) \<longrightarrow> spawn_enemy s = s) \<and>
   (int (length (enemies s)) < max_enemies_on_screen s \<longrightarrow>
      (\<exists>e. spawn_enemy s = s\<lparr>enemies := enemies s @ [e], rnd_enemy := stl (rnd_enemy s)\<rparr> \<and>
           e_type e =
             (if level s < 3 then ENEMY_BASIC
              else if level s < 5 then
                random_choice [ENEMY_BASIC, ENEMY_FAST] (d_type (shd (rnd_enemy s)))
              else
                random_choice [ENEMY_BASIC, ENEMY_FAST, ENEMY_TANK] (d_type (shd (rnd_enemy s)))))) \<and>
   bij_betw (random_choice [ENEMY_BASIC, ENEMY_FAST]) {..<2} {ENEMY_BASIC, ENEMY_FAST} \<and>
   bij_betw (random_choice [ENEMY_BASIC, ENEMY_FAST, ENEMY_TANK]) {..<3}
     {ENEMY_BASIC, ENEMY_FAST, ENEMY_TANK} \<and>
   (\<forall>i. random_choice [ENEMY_BASIC, ENEMY_FAST] (i + 2)
          = random_choice [ENEMY_BASIC, ENEMY_FAST] i) \<and>
   (\<forall>i. random_choice [ENEMY_BASIC, ENEMY_FAST, ENEMY_TANK] (i + 3)
          = random_choice [ENEMY_BASIC, ENEMY_FAST, ENEMY_TANK] i)"
proof -
  have "spawn_enemy s = s" if "max_enemies_on_screen s \<le> int (length (enemies s))"
    using that by (simp add: spawn_enemy_def)
  moreover have "\<exists>e. spawn_enemy s = s\<lparr>enemies := enemies s @ [e], rnd_enemy := stl (rnd_enemy s)\<rparr> \<and>
           e_type e =
             (if level s < 3 then ENEMY_BASIC
              else if level s < 5 then
                random_choice [ENEMY_BASIC, ENEMY_FAST] (d_type (shd (rnd_enemy s)))
              else
                random_choice [ENEMY_BASIC, ENEMY_FAST, ENEMY_TANK] (d_type (shd (rnd_enemy s))))"
    if "int (length (enemies s)) < max_enemies_on_screen s"
  proof (intro exI conjI)
    show "spawn_enemy s = s\<lparr>enemies := enemies s @ [new_enemy s], rnd_enemy := stl (rnd_enemy s)\<rparr>"
      using that by (simp add: spawn_enemy_def)
    show "e_type (new_enemy s) =
             (if level s < 3 then ENEMY_BASIC
              else if level s < 5 then
                random_choice [ENEMY_BASIC, ENEMY_FAST] (d_type (shd (rnd_enemy s)))
              else
                random_choice [ENEMY_BASIC, ENEMY_FAST, ENEMY_TANK] (d_type (shd (rnd_enemy s))))"
      by (simp add: new_enemy_fields)
  qed
  moreover have "random_choice [ENEMY_BASIC, ENEMY_FAST] (i + 2)
          = random_choice [ENEMY_BASIC, ENEMY_FAST] i" for i
    using choice_periodic [of "[ENEMY_BASIC, ENEMY_FAST]" i] by (simp add: numeral_2_eq_2)
  moreover have "random_choice [ENEMY_BASIC, ENEMY_FAST, ENEMY_TANK] (i + 3)
          = random_choice [ENEMY_BASIC, ENEMY_FAST, ENEMY_TANK] i" for i
    using choice_periodic [of "[ENEMY_BASIC, ENEMY_FAST, ENEMY_TANK]" i]
    by (simp add: numeral_3_eq_3)
  ultimately show ?thesis
    using choice_two choice_three by blast
qed

text \<open>C6 on a level-1 state with four enemies and a cap of six.\<close>

theorem spawn_enemy_contract_witness:
  "int (length (enemies doomed)) < max_enemies_on_screen doomed \<and> level doomed < 3 \<and>
   (\<exists>e. spawn_enemy doomed
          = doomed\<lparr>enemies := enemies doomed @ [e], rnd_enemy := stl (rnd_enemy doomed)\<rparr> \<and>
        e_type e = ENEMY_BASIC)"
proof -
  have "int (length (enemies doomed)) < max_enemies_on_screen doomed" "level doomed < 3"
    by (simp_all add: doomed_eval doomed_state_def)
  with spawn_enemy_contract [of doomed] show ?thesis by simp
qed

section \<open>C7: level-up\<close>




section \<open>C8: restart\<close>

text \<open>
  C8: a tick that takes the mode from MENU or from GAME_OVER to PLAYING ends in a state
  built by \<open>reset_game\<close>: the score is 0, the level 1, lives 3 and the enemy list holds
  exactly the four initial enemies.
\<close>

theorem restart_resets:
  assumes "game_state s = MENU \<or> game_state s = GAME_OVER"
    and "game_state (main_iteration inp s) = PLAYING"
  shows "score_value (main_iteration inp s) = 0 \<and> level (main_iteration inp s) = 1 \<and>
         lives (main_iteration inp s) = 3 \<and> length (enemies (main_iteration inp s)) = 4 \<and>
         (\<exists>x. main_iteration inp s =
                (reset_game x)\<lparr>game_state := PLAYING,
                               running := running (main_iteration inp s)\<rparr>)"
proof -
  have "main_iteration inp s = s\<lparr>running := running (main_iteration inp s)\<rparr> \<or>
         (\<exists>x. main_iteration inp s
                = (reset_game x)\<lparr>game_state := PLAYING, running := running (main_iteration inp s)\<rparr>)"
    using assms(1) main_iteration_MENU [of s inp] main_iteration_GAME_OVER [of s inp] by blast
  moreover have "main_iteration inp s \<noteq> s\<lparr>running := running (main_iteration inp s)\<rparr>"
  proof
    assume "main_iteration inp s = s\<lparr>running := running (main_iteration inp s)\<rparr>"
    then have "game_state (main_iteration inp s)
                 = game_state (s\<lparr>running := running (main_iteration inp s)\<rparr>)" by simp
    with assms show False by auto
  qed
  ultimately obtain x where x: "main_iteration inp s
      = (reset_game x)\<lparr>game_state := PLAYING, running := running (main_iteration inp s)\<rparr>"
    by blast
  have "score_value ((reset_game x)\<lparr>game_state := PLAYING, running := r\<rparr>) = 0"
       "level ((reset_game x)\<lparr>game_state := PLAYING, running := r\<rparr>) = 1"
       "lives ((reset_game x)\<lparr>game_state := PLAYING, running := r\<rparr>) = 3"
       "length (enemies ((reset_game x)\<lparr>game_state := PLAYING, running := r\<rparr>)) = 4" for r
    by (simp_all add: reset_game_fields)
  with x show ?thesis by metis
qed

text \<open>C8 at the start of a session (MENU) and after the game over of the session \<open>doomed\<close>.\<close>

theorem restart_resets_witness:
  "game_state w0 = MENU \<and> game_state (main_iteration (press K_SPACE) w0) = PLAYING \<and>
   lives (main_iteration (press K_SPACE) w0) = 3 \<and>
   length (enemies (main_iteration (press K_SPACE) w0)) = 4 \<and>
   game_state over_state = GAME_OVER \<and>
   game_state (main_iteration (press K_r) over_state) = PLAYING \<and>
   lives over_state = - 1 \<and> lives (main_iteration (press K_r) over_state) = 3 \<and>
   score_value (main_iteration (press K_r) over_state) = 0 \<and>
   level (main_iteration (press K_r) over_state) = 1 \<and>
   length (enemies (main_iteration (press K_r) over_state)) = 4"
proof -
  have a: "game_state w0 = MENU" by (simp add: w0_def initial_def reset_game_fields)
  have b: "game_state (main_iteration (press K_SPACE) w0) = PLAYING" by (simp add: w0_start)
  have c: "game_state over_state = GAME_OVER" "lives over_state = - 1"
    by (simp_all add: over_state_def)
  have d: "game_state (main_iteration (press K_r) over_state) = PLAYING"
    by (simp add: over_state_restart)
  show ?thesis
    using restart_resets [of w0 "press K_SPACE"] restart_resets [of over_state "press K_r"] a b c d
    by simp
qed

section \<open>C9: the step-down at the edges\<close>



section \<open>C10: back to the menu\<close>



end
